theory Spec2Isabelle
  imports Main "HOL-Library.AList"
begin

section \<open>The parse tree of \<^verbatim>\<open>go/ast\<close>\<close>

text \<open>
  The analyzer (\<^verbatim>\<open>pkg/mcp/ast.go\<close>) and the language server (\<^verbatim>\<open>pkg/mcp/lsp.go\<close>)
  work on the tree that \<^verbatim>\<open>go/parser\<close> returns. The node types that the two files
  distinguish are constructors of \<open>Node\<close>, with the fields in the order in which
  \<^verbatim>\<open>ast.Walk\<close> visits them; every other node type is \<open>Other\<close>, holding the name that
  \<^verbatim>\<open>%T\<close> prints and the children in the order of the walk. The leaves
  (\<^verbatim>\<open>*ast.Ident\<close>, \<^verbatim>\<open>*ast.BasicLit\<close>, \<^verbatim>\<open>*ast.Comment\<close>, \<^verbatim>\<open>*ast.CommentGroup\<close>,
  \<^verbatim>\<open>*ast.ImportSpec\<close>) are types of their own. A field that is a pointer or an
  interface that may be nil is an \<open>option\<close>. \<^verbatim>\<open>token.Pos\<close> and Go's \<^verbatim>\<open>int\<close> are
  \<open>int\<close>. The positions \<^verbatim>\<open>Pos()\<close> and \<^verbatim>\<open>End()\<close> of a declaration, which the library
  computes from the tokens, are the first two fields of \<open>ValueSpec\<close>, \<open>TypeSpec\<close> and
  \<open>FuncDecl\<close>.
\<close>

datatype Token =
    ADD | SUB | MUL | QUO | REM
  | AND | OR | XOR | SHL | SHR | AND_NOT
  | LAND | LOR
  | EQL | LSS | GTR | NEQ | LEQ | GEQ
  | IMPORT | CONST' | TYPE' | VAR

datatype ChanDir = SEND | RECV | SEND_RECV

datatype Ident = Ident (NamePos: int) (Name: string)
datatype BasicLit = BasicLit (ValuePos: int) (Value: string)
datatype Comment = Comment (Slash: int) (Text: string)
datatype CommentGroup = CommentGroup (List: "Comment list")
datatype ImportSpec =
  ImportSpec (Doc: "CommentGroup option") (Name: "Ident option") (Path: BasicLit)
    (Comment: "CommentGroup option")

datatype Node =
    IdentN Ident
  | BasicLitN BasicLit
  | CommentN Comment
  | CommentGroupN CommentGroup
  | FieldN "CommentGroup option" "Ident list" "Node option" "BasicLit option" "CommentGroup option"
  | FieldList "Node list"
  | SelectorExpr Node Ident
  | StarExpr Node
  | BinaryExpr Node Token Node
  | ArrayType "Node option" Node
  | StructType Node
  | FuncType "Node option" "Node option" "Node option"
  | InterfaceType Node
  | MapType Node Node
  | ChanType ChanDir Node
  | IfStmt "Node option" Node Node "Node option"
  | ForStmt "Node option" "Node option" "Node option" Node
  | RangeStmt "Node option" "Node option" Node Node
  | CaseClause "Node list" "Node list"
  | CommClause "Node option" "Node list"
  | ImportSpecN ImportSpec
  | ValueSpec int int "CommentGroup option" "Ident list" "Node option" "Node list" "CommentGroup option"
  | TypeSpec int int "CommentGroup option" Ident "Node option" Node "CommentGroup option"
  | GenDecl "CommentGroup option" Token "Node list"
  | FuncDecl int int "CommentGroup option" "Node option" Ident Node "Node option"
  | Other string "Node list"

text \<open>
  \<^verbatim>\<open>ast.Walk\<close> visits the non-nil fields of a node in a fixed order; \<open>children\<close> lists
  them in that order (\<open>opt\<close> drops a nil field).
\<close>

definition opt :: "'a option \<Rightarrow> 'a list" where
  "opt x = (case x of None \<Rightarrow> [] | Some y \<Rightarrow> [y])"

definition docNodes :: "CommentGroup option \<Rightarrow> Node list" where
  "docNodes d = map CommentGroupN (opt d)"

fun children :: "Node \<Rightarrow> Node list" where
  "children (IdentN _) = []"
| "children (BasicLitN _) = []"
| "children (CommentN _) = []"
| "children (CommentGroupN g) = map CommentN (List g)"
| "children (FieldN d names ty tag c) =
     docNodes d @ map IdentN names @ opt ty @ map BasicLitN (opt tag) @ docNodes c"
| "children (FieldList l) = l"
| "children (SelectorExpr x sel) = [x, IdentN sel]"
| "children (StarExpr x) = [x]"
| "children (BinaryExpr x _ y) = [x, y]"
| "children (ArrayType len elt) = opt len @ [elt]"
| "children (StructType fields) = [fields]"
| "children (FuncType tparams params results) = opt tparams @ opt params @ opt results"
| "children (InterfaceType methods) = [methods]"
| "children (MapType k v) = [k, v]"
| "children (ChanType _ v) = [v]"
| "children (IfStmt init cond body els) = opt init @ [cond, body] @ opt els"
| "children (ForStmt init cond post body) = opt init @ opt cond @ opt post @ [body]"
| "children (RangeStmt k v x body) = opt k @ opt v @ [x, body]"
| "children (CaseClause l body) = l @ body"
| "children (CommClause comm body) = opt comm @ body"
| "children (ImportSpecN s) =
     docNodes (Doc s) @ map IdentN (opt (ImportSpec.Name s)) @ [BasicLitN (Path s)] @ docNodes (Comment s)"
| "children (ValueSpec _ _ d names ty vals c) =
     docNodes d @ map IdentN names @ opt ty @ vals @ docNodes c"
| "children (TypeSpec _ _ d name tparams ty c) =
     docNodes d @ [IdentN name] @ opt tparams @ [ty] @ docNodes c"
| "children (GenDecl d _ specs) = docNodes d @ specs"
| "children (FuncDecl _ _ d recv name ty body) =
     docNodes d @ opt recv @ [IdentN name] @ [ty] @ opt body"
| "children (Other _ cs) = cs"

text \<open>
  \<^verbatim>\<open>ast.Inspect(node, f)\<close> calls \<^verbatim>\<open>f(node)\<close>; when that returns true it inspects the
  children and then calls \<^verbatim>\<open>f(nil)\<close>. The variables that the closure \<^verbatim>\<open>f\<close> captures
  and assigns are the state \<open>'s\<close>, which \<open>f\<close> returns updated. Every child weighs less
  than its parent, so the walk ends.
\<close>

fun rank :: "Node \<Rightarrow> nat" where
  "rank (IdentN _) = 0"
| "rank (BasicLitN _) = 0"
| "rank (CommentN _) = 0"
| "rank (CommentGroupN _) = 1"
| "rank _ = 2"

definition weight :: "Node \<Rightarrow> nat" where
  "weight n = 3 * size n + rank n"

lemma size_list_mem: "x \<in> set xs \<Longrightarrow> size x < Suc (size_list size xs)"
  by (induction xs) auto

lemma rank_le: "rank c \<le> 2"
  by (cases c) simp_all

lemma children_weight: "c \<in> set (children n) \<Longrightarrow> weight c < weight n"
  using rank_le [of c]
  by (cases n)
     (auto simp: opt_def docNodes_def weight_def split: option.splits dest!: size_list_mem)

function Inspect :: "(Node option \<Rightarrow> 's \<Rightarrow> bool \<times> 's) \<Rightarrow> Node \<Rightarrow> 's \<Rightarrow> 's" where
  "Inspect f node s =
     (case f (Some node) s of
        (False, s') \<Rightarrow> s'
      | (True, s') \<Rightarrow> snd (f None (fold (Inspect f) (children node) s')))"
  by pat_completeness auto
termination
  by (relation "measure (\<lambda>(f, n, s). weight n)") (auto simp: children_weight)

section \<open>Library functions used by the analyzer\<close>

text \<open>\<^verbatim>\<open>strings.Trim\<close>, \<^verbatim>\<open>strings.Join\<close> and \<^verbatim>\<open>strings.HasPrefix\<close>.\<close>

definition Trim :: "string \<Rightarrow> string \<Rightarrow> string" where
  "Trim s cutset =
     rev (dropWhile (\<lambda>c. c \<in> set cutset) (rev (dropWhile (\<lambda>c. c \<in> set cutset) s)))"

fun Join :: "string list \<Rightarrow> string \<Rightarrow> string" where
  "Join [] sep = ''''"
| "Join [x] sep = x"
| "Join (x # y # ys) sep = x @ sep @ Join (y # ys) sep"

definition HasPrefix :: "string \<Rightarrow> string \<Rightarrow> bool" where
  "HasPrefix s pre = (take (length pre) s = pre)"

text \<open>
  \<^verbatim>\<open>ast.IsExported\<close>: the name begins with an upper-case letter. The letters of ASCII
  stand for Unicode's upper-case letters.
\<close>

definition IsExported :: "string \<Rightarrow> bool" where
  "IsExported name =
     (case name of [] \<Rightarrow> False | c # _ \<Rightarrow> c \<in> set ''ABCDEFGHIJKLMNOPQRSTUVWXYZ'')"

text \<open>
  \<^verbatim>\<open>(*ast.CommentGroup).Text\<close>, which is safe on nil; the text of the comments, one per
  line, stands for the library's stripping of comment markers.
\<close>

definition CommentGroup_Text :: "CommentGroup option \<Rightarrow> string" where
  "CommentGroup_Text g =
     (case g of None \<Rightarrow> '''' | Some d \<Rightarrow> concat (map (\<lambda>c. Text c @ [CHR 0x0A]) (List d)))"

text \<open>What \<^verbatim>\<open>fmt.Sprintf("%T", n)\<close> prints for a node.\<close>

fun goTypeName :: "Node \<Rightarrow> string" where
  "goTypeName (IdentN _) = ''*ast.Ident''"
| "goTypeName (BasicLitN _) = ''*ast.BasicLit''"
| "goTypeName (CommentN _) = ''*ast.Comment''"
| "goTypeName (CommentGroupN _) = ''*ast.CommentGroup''"
| "goTypeName (FieldN _ _ _ _ _) = ''*ast.Field''"
| "goTypeName (FieldList _) = ''*ast.FieldList''"
| "goTypeName (SelectorExpr _ _) = ''*ast.SelectorExpr''"
| "goTypeName (StarExpr _) = ''*ast.StarExpr''"
| "goTypeName (BinaryExpr _ _ _) = ''*ast.BinaryExpr''"
| "goTypeName (ArrayType _ _) = ''*ast.ArrayType''"
| "goTypeName (StructType _) = ''*ast.StructType''"
| "goTypeName (FuncType _ _ _) = ''*ast.FuncType''"
| "goTypeName (InterfaceType _) = ''*ast.InterfaceType''"
| "goTypeName (MapType _ _) = ''*ast.MapType''"
| "goTypeName (ChanType _ _) = ''*ast.ChanType''"
| "goTypeName (IfStmt _ _ _ _) = ''*ast.IfStmt''"
| "goTypeName (ForStmt _ _ _ _) = ''*ast.ForStmt''"
| "goTypeName (RangeStmt _ _ _ _) = ''*ast.RangeStmt''"
| "goTypeName (CaseClause _ _) = ''*ast.CaseClause''"
| "goTypeName (CommClause _ _) = ''*ast.CommClause''"
| "goTypeName (ImportSpecN _) = ''*ast.ImportSpec''"
| "goTypeName (ValueSpec _ _ _ _ _ _ _) = ''*ast.ValueSpec''"
| "goTypeName (TypeSpec _ _ _ _ _ _ _) = ''*ast.TypeSpec''"
| "goTypeName (GenDecl _ _ _) = ''*ast.GenDecl''"
| "goTypeName (FuncDecl _ _ _ _ _ _ _) = ''*ast.FuncDecl''"
| "goTypeName (Other name _) = name"

text \<open>
  The fields of \<^verbatim>\<open>*ast.FieldList\<close>, \<^verbatim>\<open>*ast.Field\<close> and \<^verbatim>\<open>*ast.FuncType\<close>. Go's types
  make the argument a node of that type; on any other node the accessors return the
  empty value.
\<close>

fun FieldList_List :: "Node \<Rightarrow> Node list" where
  "FieldList_List (FieldList l) = l"
| "FieldList_List _ = []"

fun Field_Doc :: "Node \<Rightarrow> CommentGroup option" where
  "Field_Doc (FieldN d _ _ _ _) = d"
| "Field_Doc _ = None"

fun Field_Names :: "Node \<Rightarrow> Ident list" where
  "Field_Names (FieldN _ names _ _ _) = names"
| "Field_Names _ = []"

fun Field_Type :: "Node \<Rightarrow> Node option" where
  "Field_Type (FieldN _ _ ty _ _) = ty"
| "Field_Type _ = None"

fun Field_Tag :: "Node \<Rightarrow> BasicLit option" where
  "Field_Tag (FieldN _ _ _ tag _) = tag"
| "Field_Tag _ = None"

fun FuncType_Params :: "Node \<Rightarrow> Node option" where
  "FuncType_Params (FuncType _ params _) = params"
| "FuncType_Params _ = None"

fun FuncType_Results :: "Node \<Rightarrow> Node option" where
  "FuncType_Results (FuncType _ _ results) = results"
| "FuncType_Results _ = None"

text \<open>
  \<^verbatim>\<open>token.FileSet\<close>: the analyzer and the language server only call
  \<^verbatim>\<open>fileSet.Position(pos)\<close>, so a file set is the function from a \<^verbatim>\<open>token.Pos\<close> to the
  \<^verbatim>\<open>token.Position\<close> it returns.
\<close>

record token_Position =
  Filename :: string
  Offset :: int
  Line :: int
  Column :: int

type_synonym FileSet = "int \<Rightarrow> token_Position"

text \<open>
  \<^verbatim>\<open>types.Object\<close>, with the dynamic types that \<^verbatim>\<open>getIdentKind\<close> switches on; each holds
  the object's name, and a \<^verbatim>\<open>*types.PkgName\<close> also the path of the imported package.
  \<^verbatim>\<open>types.Info\<close> with the two maps that the analyzer reads, keyed by identifier.
\<close>

datatype Object =
    Func string
  | Var string
  | Const string
  | TypeName string
  | PkgName string string
  | Label string
  | Builtin string
  | NilObject
  | OtherObject string

fun Object_Name :: "Object \<Rightarrow> string" where
  "Object_Name (Func n) = n"
| "Object_Name (Var n) = n"
| "Object_Name (Const n) = n"
| "Object_Name (TypeName n) = n"
| "Object_Name (PkgName n _) = n"
| "Object_Name (Label n) = n"
| "Object_Name (Builtin n) = n"
| "Object_Name NilObject = ''nil''"
| "Object_Name (OtherObject n) = n"

record Info =
  Defs :: "Ident \<rightharpoonup> Object"
  Uses :: "Ident \<rightharpoonup> Object"

section \<open>The data model of package \<^verbatim>\<open>mcp\<close>\<close>

text \<open>
  The structs of \<^verbatim>\<open>lsp.go\<close>, of the types file and of \<^verbatim>\<open>ast.go\<close>, field for field.
  A field that a struct literal of the source leaves out has Go's zero value
  (\<open>0\<close>, \<open>False\<close>, the empty string, the empty list).
\<close>

record Position =
  Line :: int
  Character :: int

record Range =
  Start :: Position
  End :: Position

record Location =
  URI :: string
  Range' :: Range

record SymbolInfo =
  Name :: string
  Kind :: string
  Location :: Location
  Container :: string
  Signature :: string

record TextDocumentItem =
  URI :: string
  Text :: string
  Version :: int

record ImportInfo =
  Path :: string
  Name :: string
  Used :: bool

record ParameterInfo =
  Name :: string
  Type :: string
  IsVariadic :: bool

record FunctionInfo =
  Name :: string
  Signature :: string
  Doc :: string
  Location :: Location
  Complexity :: int
  IsMethod :: bool
  Receiver :: string
  Parameters :: "ParameterInfo list"
  Returns :: "ParameterInfo list"

record FieldInfo =
  Name :: string
  Type :: string
  Doc :: string
  Tags :: string
  IsEmbed :: bool

record MethodInfo =
  Name :: string
  Signature :: string
  Doc :: string
  Parameters :: "ParameterInfo list"
  Returns :: "ParameterInfo list"

record TypeInfo =
  Name :: string
  Kind :: string
  Doc :: string
  Location :: Location
  Fields :: "FieldInfo list"
  Methods :: "MethodInfo list"
  Implements :: "string list"

record VariableInfo =
  Name :: string
  Type :: string
  Location :: Location
  Constant :: bool
  Value :: string
  Doc :: string
  Scope :: string

record ReferenceInfo =
  Name :: string
  Kind :: string
  Location :: Location
  UsedAt :: "Location list"
  Scope :: string

record Diagnostic =
  Severity :: string
  Message :: string
  Location :: Location
  Code :: string
  Source :: string

record CodeMetrics =
  LinesOfCode :: int
  CommentLines :: int
  FunctionCount :: int
  ComplexityScore :: int
  InterfaceCount :: int
  StructCount :: int
  TestCount :: int

record AnalysisResult =
  Imports :: "ImportInfo list"
  Functions :: "FunctionInfo list"
  Types :: "TypeInfo list"
  Variables :: "VariableInfo list"
  References :: "ReferenceInfo list"
  Diagnostics :: "Diagnostic list"
  Metrics :: CodeMetrics

text \<open>
  \<^verbatim>\<open>*ast.File\<close>: the fields that the source reads (\<^verbatim>\<open>file.Pos()\<close> is \<open>Package\<close>), and
  \<open>End\<close> for \<^verbatim>\<open>file.End()\<close>.
  \<open>Imports\<close> holds the import specs of the file, which are also nodes below \<open>Decls\<close>.
  \<^verbatim>\<open>ast.Inspect(file, f)\<close> starts at the file, a node that no closure of the source
  matches: \<open>fileNode\<close> is that node with the children that \<^verbatim>\<open>ast.Walk\<close> visits
  (\<^verbatim>\<open>Doc\<close>, \<^verbatim>\<open>Name\<close>, \<^verbatim>\<open>Decls\<close>).
\<close>

record File =
  Doc :: "CommentGroup option"
  Package :: int
  Name :: Ident
  Decls :: "Node list"
  Imports :: "ImportSpec list"
  End :: int

definition fileNode :: "File \<Rightarrow> Node" where
  "fileNode file =
     Other ''*ast.File'' (docNodes (File.Doc file) @ [IdentN (File.Name file)] @ Decls file)"

text \<open>\<^verbatim>\<open>(*ast.ImportSpec).Pos\<close>: the position of the local name if there is one, else of the path.\<close>

definition ImportSpec_Pos :: "ImportSpec \<Rightarrow> int" where
  "ImportSpec_Pos s =
     (case ImportSpec.Name s of Some n \<Rightarrow> NamePos n | None \<Rightarrow> ValuePos (ImportSpec.Path s))"

text \<open>
  A Go map from strings is an association list with one entry per key
  (\<open>map_of\<close> reads, \<open>AList.update\<close> writes). The order in which \<^verbatim>\<open>range\<close> yields the
  entries of a map is chosen by the runtime at every loop: \<open>mapRange\<close> takes the choices
  as its first argument and yields the entries in the order they select (each choice picks
  one of the entries that are left; when the choices run out the rest follows in stored
  order).
\<close>

function mapRange :: "nat list \<Rightarrow> 'a list \<Rightarrow> 'a list" where
  "mapRange cs [] = []"
| "mapRange [] (x # xs) = x # xs"
| "mapRange (c # cs) (x # xs) =
     (let i = c mod length (x # xs)
      in (x # xs) ! i # mapRange cs (take i (x # xs) @ drop (Suc i) (x # xs)))"
  by pat_completeness auto
termination
  by (relation "measure (\<lambda>(cs, xs). length xs)") auto

text \<open>
  \<^verbatim>\<open>ASTAnalyzer\<close>. \<open>packages\<close> maps a package path to the name and the files (by file
  name) of an \<^verbatim>\<open>*ast.Package\<close>.
\<close>

record ASTAnalyzer =
  fileSet :: FileSet
  typeInfo :: Info
  packages :: "(string \<times> string \<times> (string \<times> File) list) list"
  complexity :: "(string \<times> int) list"

definition NewASTAnalyzer :: "FileSet \<Rightarrow> ASTAnalyzer" where
  "NewASTAnalyzer fset =
     \<lparr>fileSet = fset,
      typeInfo = \<lparr>Defs = Map.empty, Uses = Map.empty\<rparr>,
      packages = [],
      complexity = []\<rparr>"

text \<open>
  The location that the source builds from two positions: lines and columns of the file
  set count from 1, those of a \<open>Location\<close> from 0; the URI is the package name of the file.
\<close>

definition mkLocation :: "File \<Rightarrow> int \<times> int \<Rightarrow> int \<times> int \<Rightarrow> Location" where
  "mkLocation file start end' =
     \<lparr>Location.URI = Ident.Name (File.Name file),
      Range' = \<lparr>Start = \<lparr>Position.Line = fst start, Character = snd start\<rparr>,
                End = \<lparr>Position.Line = fst end', Character = snd end'\<rparr>\<rparr>\<rparr>"

section \<open>The analyzer (\<^verbatim>\<open>ast.go\<close>)\<close>

subsection \<open>Type strings and signatures\<close>

text \<open>
  \<open>fieldStrings\<close> is the loop over the names of one parameter or result field that
  \<^verbatim>\<open>getFunctionTypeSignature\<close> runs twice: the type alone for a field without names,
  else \<^verbatim>\<open>name type\<close> for every name.
\<close>

definition fieldStrings :: "Ident list \<Rightarrow> string \<Rightarrow> string list" where
  "fieldStrings names ty =
     (if length names = 0 then [ty] else map (\<lambda>name. Ident.Name name @ '' '' @ ty) names)"

lemma FuncType_Params_size: "FuncType_Params t = Some l \<Longrightarrow> size l < size t"
  by (cases t) auto

lemma FuncType_Results_size: "FuncType_Results t = Some l \<Longrightarrow> size l < size t"
  by (cases t) auto

lemma FieldList_List_size: "p \<in> set (FieldList_List l) \<Longrightarrow> size p < size l"
  by (cases l) (auto dest: size_list_mem)

lemma Field_Type_size: "Field_Type p = Some ty \<Longrightarrow> size ty < size p"
  by (cases p) auto

definition typeMeasure :: "Node option + Node \<Rightarrow> nat" where
  "typeMeasure x =
     (case x of
        Inl None \<Rightarrow> 0
      | Inl (Some n) \<Rightarrow> 2 * size n + 2
      | Inr n \<Rightarrow> 2 * size n + 1)"

lemma typeMeasure_field:
  assumes "p \<in> set (FieldList_List l)" and "size l < size fnType"
  shows "typeMeasure (Inl (Field_Type p)) < typeMeasure (Inr fnType)"
proof (cases "Field_Type p")
  case None
  then show ?thesis by (simp add: typeMeasure_def)
next
  case (Some ty)
  then show ?thesis
    using assms FieldList_List_size [of p l] Field_Type_size [of p ty]
    by (simp add: typeMeasure_def)
qed

function getTypeString :: "Node option \<Rightarrow> string"
  and getFunctionTypeSignature :: "Node \<Rightarrow> string" where
  "getTypeString None = ''unknown''"
| "getTypeString (Some t) =
     (case t of
        IdentN i \<Rightarrow> Ident.Name i
      | StarExpr x \<Rightarrow> ''*'' @ getTypeString (Some x)
      | ArrayType _ elt \<Rightarrow> ''[]'' @ getTypeString (Some elt)
      | MapType k v \<Rightarrow> ''map['' @ getTypeString (Some k) @ '']'' @ getTypeString (Some v)
      | InterfaceType _ \<Rightarrow> ''interface{}''
      | SelectorExpr x sel \<Rightarrow> getTypeString (Some x) @ ''.'' @ Ident.Name sel
      | StructType _ \<Rightarrow> ''struct{...}''
      | FuncType _ _ _ \<Rightarrow> getFunctionTypeSignature t
      | ChanType dir v \<Rightarrow>
          (case dir of
             SEND \<Rightarrow> ''chan<- '' @ getTypeString (Some v)
           | RECV \<Rightarrow> ''<-chan '' @ getTypeString (Some v)
           | SEND_RECV \<Rightarrow> ''chan '' @ getTypeString (Some v))
      | _ \<Rightarrow> goTypeName t)"
| "getFunctionTypeSignature fnType =
     (let params =
            (case FuncType_Params fnType of
               None \<Rightarrow> []
             | Some l \<Rightarrow>
                 concat (map (\<lambda>p. fieldStrings (Field_Names p) (getTypeString (Field_Type p)))
                           (FieldList_List l)));
          returns =
            (case FuncType_Results fnType of
               None \<Rightarrow> []
             | Some l \<Rightarrow>
                 concat (map (\<lambda>r. fieldStrings (Field_Names r) (getTypeString (Field_Type r)))
                           (FieldList_List l)));
          returnStr =
            (if length returns = 0 then ''''
             else if length returns = 1 then '' '' @ hd returns
             else '' ('' @ Join returns '', '' @ '')'')
      in ''('' @ Join params '', '' @ '')'' @ returnStr)"
  by pat_completeness auto
termination
  apply (relation "measure typeMeasure")
  apply (simp_all add: typeMeasure_field FuncType_Params_size FuncType_Results_size)
  apply (simp_all add: typeMeasure_def)
  done

text \<open>
  \<^verbatim>\<open>getFunctionSignature\<close> takes a \<^verbatim>\<open>*ast.FuncDecl\<close>; the last equation is for the nodes
  that Go's types exclude.
\<close>

fun getFunctionSignature :: "Node \<Rightarrow> string" where
  "getFunctionSignature (FuncDecl _ _ _ recv name ty _) =
     (let receiver =
            (case recv of
               Some r \<Rightarrow>
                 if length (FieldList_List r) > 0
                 then ''('' @ getTypeString (Field_Type (hd (FieldList_List r))) @ '') ''
                 else ''''
             | None \<Rightarrow> '''')
      in ''func '' @ receiver @ Ident.Name name @ getFunctionTypeSignature ty)"
| "getFunctionSignature _ = ''''"

fun getIdentKind :: "Object \<Rightarrow> string" where
  "getIdentKind (Func _) = ''function''"
| "getIdentKind (Var _) = ''variable''"
| "getIdentKind (Const _) = ''constant''"
| "getIdentKind (TypeName _) = ''type''"
| "getIdentKind (PkgName _ _) = ''package''"
| "getIdentKind (Label _) = ''label''"
| "getIdentKind (Builtin _) = ''builtin''"
| "getIdentKind NilObject = ''nil''"
| "getIdentKind (OtherObject _) = ''unknown''"

subsection \<open>The passes of \<^verbatim>\<open>AnalyzeFile\<close>\<close>

text \<open>
  Each pass is an \<^verbatim>\<open>ast.Inspect\<close> with a closure, or a loop over \<^verbatim>\<open>file.Imports\<close>. The
  closure of function \<open>f\<close> is \<open>f_visit\<close>; its state is what the closure assigns.
\<close>

definition isImportUsed_visit ::
  "ASTAnalyzer \<Rightarrow> string \<Rightarrow> Node option \<Rightarrow> bool \<Rightarrow> bool \<times> bool" where
  "isImportUsed_visit a importPath n used =
     (case n of
        Some (SelectorExpr (IdentN ident) sel) \<Rightarrow>
          (case Uses (typeInfo a) ident of
             Some (PkgName name path) \<Rightarrow>
               if path = importPath then (False, True) else (True, used)
           | _ \<Rightarrow> (True, used))
      | _ \<Rightarrow> (True, used))"

definition isImportUsed :: "ASTAnalyzer \<Rightarrow> File \<Rightarrow> string \<Rightarrow> bool" where
  "isImportUsed a file importPath =
     Inspect (isImportUsed_visit a importPath) (fileNode file) False"

definition analyzeImports :: "ASTAnalyzer \<Rightarrow> File \<Rightarrow> ImportInfo list" where
  "analyzeImports a file =
     map (\<lambda>imp.
            let path = Trim (BasicLit.Value (ImportSpec.Path imp)) [CHR 0x22];
                name = (case ImportSpec.Name imp of Some n \<Rightarrow> Ident.Name n | None \<Rightarrow> '''')
            in \<lparr>ImportInfo.Path = path, ImportInfo.Name = name,
                Used = isImportUsed a file path\<rparr>)
         (File.Imports file)"

definition calculateFunctionComplexity_visit :: "Node option \<Rightarrow> int \<Rightarrow> bool \<times> int" where
  "calculateFunctionComplexity_visit n complexity' =
     (case n of
        Some (IfStmt _ _ _ _) \<Rightarrow> (True, complexity' + 1)
      | Some (ForStmt _ _ _ _) \<Rightarrow> (True, complexity' + 1)
      | Some (RangeStmt _ _ _ _) \<Rightarrow> (True, complexity' + 1)
      | Some (CaseClause _ _) \<Rightarrow> (True, complexity' + 1)
      | Some (CommClause _ _) \<Rightarrow> (True, complexity' + 1)
      | Some (BinaryExpr _ _ _) \<Rightarrow> (True, complexity' + 1)
      | _ \<Rightarrow> (True, complexity'))"

definition calculateFunctionComplexity :: "Node \<Rightarrow> int" where
  "calculateFunctionComplexity fn = Inspect calculateFunctionComplexity_visit fn 1"

text \<open>
  \<^verbatim>\<open>analyzeFunctions\<close> appends to \<^verbatim>\<open>functions\<close> and writes the analyzer's map
  \<^verbatim>\<open>a.complexity\<close>, so it returns the list and the analyzer.
\<close>

definition analyzeFunctions_visit ::
  "ASTAnalyzer \<Rightarrow> File \<Rightarrow> Node option \<Rightarrow> FunctionInfo list \<times> (string \<times> int) list
     \<Rightarrow> bool \<times> FunctionInfo list \<times> (string \<times> int) list" where
  "analyzeFunctions_visit a file n st =
     (case n of
        Some (FuncDecl p e d recv name ty body) \<Rightarrow>
          (let fn = FuncDecl p e d recv name ty body;
               pos = fileSet a p;
               end' = fileSet a e;
               doc = (case d of None \<Rightarrow> '''' | Some g \<Rightarrow> CommentGroup_Text (Some g));
               complexity' = calculateFunctionComplexity fn
           in (True,
               fst st @
                 [\<lparr>FunctionInfo.Name = Ident.Name name,
                   FunctionInfo.Signature = getFunctionSignature fn,
                   FunctionInfo.Doc = doc,
                   FunctionInfo.Location =
                     mkLocation file
                       (token_Position.Line pos - 1, Column pos - 1)
                       (token_Position.Line end' - 1, Column end' - 1),
                   Complexity = complexity',
                   IsMethod = False,
                   Receiver = '''',
                   FunctionInfo.Parameters = [],
                   FunctionInfo.Returns = []\<rparr>],
               AList.update (Ident.Name name) complexity' (snd st)))
      | _ \<Rightarrow> (True, st))"

definition analyzeFunctions :: "ASTAnalyzer \<Rightarrow> File \<Rightarrow> FunctionInfo list \<times> ASTAnalyzer" where
  "analyzeFunctions a file =
     (let st = Inspect (analyzeFunctions_visit a file) (fileNode file) ([], complexity a)
      in (fst st, a\<lparr>complexity := snd st\<rparr>))"

text \<open>
  \<^verbatim>\<open>analyzeStructFields\<close> takes a \<^verbatim>\<open>*ast.StructType\<close> and \<^verbatim>\<open>analyzeInterfaceMethods\<close> an
  \<^verbatim>\<open>*ast.InterfaceType\<close>; the arguments here are their field lists.
\<close>

definition analyzeStructFields :: "Node \<Rightarrow> FieldInfo list" where
  "analyzeStructFields fields' =
     concat (map (\<lambda>field.
                    map (\<lambda>name.
                           \<lparr>FieldInfo.Name = Ident.Name name,
                            FieldInfo.Type = getTypeString (Field_Type field),
                            FieldInfo.Doc = CommentGroup_Text (Field_Doc field),
                            Tags = (case Field_Tag field of Some t \<Rightarrow> BasicLit.Value t | None \<Rightarrow> ''''),
                            IsEmbed = False\<rparr>)
                        (Field_Names field))
                 (FieldList_List fields'))"

definition analyzeInterfaceMethods :: "Node \<Rightarrow> MethodInfo list" where
  "analyzeInterfaceMethods methods =
     concat (map (\<lambda>method.
                    if length (Field_Names method) > 0
                    then (case Field_Type method of
                            Some (FuncType tp ps rs) \<Rightarrow>
                              [\<lparr>MethodInfo.Name = Ident.Name (hd (Field_Names method)),
                                MethodInfo.Signature = getFunctionTypeSignature (FuncType tp ps rs),
                                MethodInfo.Doc = CommentGroup_Text (Field_Doc method),
                                MethodInfo.Parameters = [],
                                MethodInfo.Returns = []\<rparr>]
                          | _ \<Rightarrow> [])
                    else [])
                 (FieldList_List methods))"

definition analyzeTypes_visit ::
  "ASTAnalyzer \<Rightarrow> File \<Rightarrow> Node option \<Rightarrow> TypeInfo list \<Rightarrow> bool \<times> TypeInfo list" where
  "analyzeTypes_visit a file n types =
     (case n of
        Some (TypeSpec p e d name tparams ty c) \<Rightarrow>
          (let pos = fileSet a p;
               end' = fileSet a e;
               typeInfo' =
                 \<lparr>TypeInfo.Name = Ident.Name name,
                  TypeInfo.Kind = '''',
                  TypeInfo.Doc = '''',
                  TypeInfo.Location =
                    mkLocation file
                      (token_Position.Line pos - 1, Column pos - 1)
                      (token_Position.Line end' - 1, Column end' - 1),
                  Fields = [],
                  Methods = [],
                  Implements = []\<rparr>;
               typeInfo' =
                 (case ty of
                    StructType fields' \<Rightarrow>
                      typeInfo'\<lparr>TypeInfo.Kind := ''struct'', Fields := analyzeStructFields fields'\<rparr>
                  | InterfaceType methods \<Rightarrow>
                      typeInfo'\<lparr>TypeInfo.Kind := ''interface'',
                               Methods := analyzeInterfaceMethods methods\<rparr>
                  | _ \<Rightarrow> typeInfo'\<lparr>TypeInfo.Kind := goTypeName ty\<rparr>)
           in (True, types @ [typeInfo']))
      | _ \<Rightarrow> (True, types))"

definition analyzeTypes :: "ASTAnalyzer \<Rightarrow> File \<Rightarrow> TypeInfo list" where
  "analyzeTypes a file = Inspect (analyzeTypes_visit a file) (fileNode file) []"

definition analyzeVariables_visit ::
  "ASTAnalyzer \<Rightarrow> File \<Rightarrow> Node option \<Rightarrow> VariableInfo list \<Rightarrow> bool \<times> VariableInfo list" where
  "analyzeVariables_visit a file n variables =
     (case n of
        Some (ValueSpec p e d names ty vals c) \<Rightarrow>
          (let pos = fileSet a p;
               end' = fileSet a e
           in (True,
               variables @
                 map (\<lambda>name.
                        \<lparr>VariableInfo.Name = Ident.Name name,
                         VariableInfo.Type = getTypeString ty,
                         VariableInfo.Location =
                           mkLocation file
                             (token_Position.Line pos - 1, Column pos - 1)
                             (token_Position.Line end' - 1, Column end' - 1),
                         Constant = (length vals > 0),
                         VariableInfo.Value = '''',
                         VariableInfo.Doc = '''',
                         VariableInfo.Scope = ''''\<rparr>)
                     names))
      | _ \<Rightarrow> (True, variables))"

definition analyzeVariables :: "ASTAnalyzer \<Rightarrow> File \<Rightarrow> VariableInfo list" where
  "analyzeVariables a file = Inspect (analyzeVariables_visit a file) (fileNode file) []"

text \<open>
  \<^verbatim>\<open>analyzeReferences\<close>: the two closures write the local map \<^verbatim>\<open>refMap\<close>; the last loop
  ranges over that map, in the order given by \<open>choices\<close>.
\<close>

definition analyzeReferences_defs ::
  "ASTAnalyzer \<Rightarrow> File \<Rightarrow> Node option \<Rightarrow> (string \<times> ReferenceInfo) list
     \<Rightarrow> bool \<times> (string \<times> ReferenceInfo) list" where
  "analyzeReferences_defs a file n refMap =
     (case n of
        Some (IdentN node) \<Rightarrow>
          (case Defs (typeInfo a) node of
             Some obj \<Rightarrow>
               (let pos = fileSet a (NamePos node)
                in (True,
                    AList.update (Ident.Name node)
                      \<lparr>ReferenceInfo.Name = Ident.Name node,
                       ReferenceInfo.Kind = getIdentKind obj,
                       ReferenceInfo.Location =
                         mkLocation file
                           (token_Position.Line pos - 1, Column pos - 1)
                           (token_Position.Line pos - 1,
                            Column pos - 1 + int (length (Ident.Name node))),
                       UsedAt = [],
                       ReferenceInfo.Scope = ''''\<rparr>
                      refMap))
           | None \<Rightarrow> (True, refMap))
      | _ \<Rightarrow> (True, refMap))"

definition analyzeReferences_uses ::
  "ASTAnalyzer \<Rightarrow> File \<Rightarrow> Node option \<Rightarrow> (string \<times> ReferenceInfo) list
     \<Rightarrow> bool \<times> (string \<times> ReferenceInfo) list" where
  "analyzeReferences_uses a file n refMap =
     (case n of
        Some (IdentN node) \<Rightarrow>
          (case Uses (typeInfo a) node of
             Some obj \<Rightarrow>
               (case map_of refMap (Object_Name obj) of
                  Some ref \<Rightarrow>
                    (let pos = fileSet a (NamePos node)
                     in (True,
                         AList.update (Object_Name obj)
                           (ref\<lparr>UsedAt :=
                                  UsedAt ref @
                                    [mkLocation file
                                       (token_Position.Line pos - 1, Column pos - 1)
                                       (token_Position.Line pos - 1,
                                        Column pos - 1 + int (length (Ident.Name node)))]\<rparr>)
                           refMap))
                | None \<Rightarrow> (True, refMap))
           | None \<Rightarrow> (True, refMap))
      | _ \<Rightarrow> (True, refMap))"

definition analyzeReferences :: "nat list \<Rightarrow> ASTAnalyzer \<Rightarrow> File \<Rightarrow> ReferenceInfo list" where
  "analyzeReferences choices a file =
     (let refMap = Inspect (analyzeReferences_defs a file) (fileNode file) [];
          refMap = Inspect (analyzeReferences_uses a file) (fileNode file) refMap
      in map snd (mapRange choices refMap))"

text \<open>
  \<^verbatim>\<open>calculateMetrics\<close>: the closure counts into \<^verbatim>\<open>metrics\<close>; the last loop adds every value
  of the analyzer's map \<^verbatim>\<open>a.complexity\<close> (the sum does not depend on the order of the
  range).
\<close>

definition calculateMetrics_visit :: "Node option \<Rightarrow> CodeMetrics \<Rightarrow> bool \<times> CodeMetrics" where
  "calculateMetrics_visit n metrics =
     (case n of
        Some (FuncDecl _ _ _ _ name _ _) \<Rightarrow>
          (let metrics = metrics\<lparr>FunctionCount := FunctionCount metrics + 1\<rparr>
           in (True,
               if HasPrefix (Ident.Name name) ''Test''
               then metrics\<lparr>TestCount := TestCount metrics + 1\<rparr>
               else metrics))
      | Some (TypeSpec _ _ _ _ _ ty _) \<Rightarrow>
          (case ty of
             StructType _ \<Rightarrow> (True, metrics\<lparr>StructCount := StructCount metrics + 1\<rparr>)
           | InterfaceType _ \<Rightarrow> (True, metrics\<lparr>InterfaceCount := InterfaceCount metrics + 1\<rparr>)
           | _ \<Rightarrow> (True, metrics))
      | Some (CommentGroupN g) \<Rightarrow>
          (True, metrics\<lparr>CommentLines := CommentLines metrics + int (length (List g))\<rparr>)
      | _ \<Rightarrow> (True, metrics))"

definition calculateMetrics :: "ASTAnalyzer \<Rightarrow> File \<Rightarrow> CodeMetrics" where
  "calculateMetrics a file =
     (let metrics =
            \<lparr>LinesOfCode = 0, CommentLines = 0, FunctionCount = 0, ComplexityScore = 0,
             InterfaceCount = 0, StructCount = 0, TestCount = 0\<rparr>;
          lineCount = token_Position.Line (fileSet a (File.End file));
          metrics = metrics\<lparr>LinesOfCode := lineCount\<rparr>;
          metrics = Inspect calculateMetrics_visit (fileNode file) metrics
      in metrics\<lparr>ComplexityScore :=
                   ComplexityScore metrics + sum_list (map snd (complexity a))\<rparr>)"

definition runDiagnostics_visit ::
  "ASTAnalyzer \<Rightarrow> File \<Rightarrow> Node option \<Rightarrow> Diagnostic list \<Rightarrow> bool \<times> Diagnostic list" where
  "runDiagnostics_visit a file n diagnostics =
     (case n of
        Some (FuncDecl _ _ d _ name _ _) \<Rightarrow>
          (if IsExported (Ident.Name name) \<and> d = None
           then (let pos = fileSet a (NamePos name)
                 in (True,
                     diagnostics @
                       [\<lparr>Severity = ''info'',
                         Message =
                           ''Exported function '' @ Ident.Name name @ '' lacks documentation'',
                         Diagnostic.Location =
                           mkLocation file
                             (token_Position.Line pos - 1, Column pos - 1)
                             (token_Position.Line pos - 1,
                              Column pos - 1 + int (length (Ident.Name name))),
                         Code = ''missing-doc'',
                         Source = ''go-analyzer''\<rparr>]))
           else (True, diagnostics))
      | _ \<Rightarrow> (True, diagnostics))"

definition runDiagnostics :: "ASTAnalyzer \<Rightarrow> File \<Rightarrow> Diagnostic list" where
  "runDiagnostics a file =
     (let diagnostics =
            concat (map (\<lambda>imp.
                           let path = Trim (BasicLit.Value (ImportSpec.Path imp)) [CHR 0x22]
                           in if \<not> isImportUsed a file path
                              then (let pos = fileSet a (ImportSpec_Pos imp)
                                    in [\<lparr>Severity = ''warning'',
                                         Message = ''Unused import: '' @ path,
                                         Diagnostic.Location =
                                           mkLocation file
                                             (token_Position.Line pos - 1, Column pos - 1)
                                             (token_Position.Line pos - 1,
                                              Column pos - 1 + int (length path)),
                                         Code = ''unused-import'',
                                         Source = ''go-analyzer''\<rparr>])
                              else [])
                        (File.Imports file))
      in Inspect (runDiagnostics_visit a file) (fileNode file) diagnostics)"

subsection \<open>\<^verbatim>\<open>AnalyzeFile\<close>, \<^verbatim>\<open>AnalyzePackage\<close>, \<^verbatim>\<open>AnalyzeDependencies\<close>\<close>

text \<open>
  \<^verbatim>\<open>AnalyzeFile\<close> returns the result and leaves the analyzer with the map that
  \<^verbatim>\<open>analyzeFunctions\<close> wrote; its error is always nil. The passes after
  \<^verbatim>\<open>analyzeFunctions\<close> run on the analyzer as it is then.
\<close>

definition AnalyzeFile :: "nat list \<Rightarrow> ASTAnalyzer \<Rightarrow> File \<Rightarrow> AnalysisResult \<times> ASTAnalyzer" where
  "AnalyzeFile choices a file =
     (let imports = analyzeImports a file;
          fa = analyzeFunctions a file;
          a = snd fa
      in (\<lparr>AnalysisResult.Imports = imports,
           Functions = fst fa,
           Types = analyzeTypes a file,
           Variables = analyzeVariables a file,
           References = analyzeReferences choices a file,
           Diagnostics = runDiagnostics a file,
           Metrics = calculateMetrics a file\<rparr>,
          a))"

text \<open>A call either returns or panics.\<close>

datatype 'a Exec = Returned 'a | Panicked string

text \<open>
  \<^verbatim>\<open>AnalyzePackage\<close> reads \<^verbatim>\<open>files[0]\<close>, which panics on an empty list, records the
  package, and adds up the results of \<^verbatim>\<open>AnalyzeFile\<close> over the files (the references are
  not collected).
\<close>

definition AnalyzePackage ::
  "nat list \<Rightarrow> ASTAnalyzer \<Rightarrow> string \<Rightarrow> File list \<Rightarrow> AnalysisResult Exec \<times> ASTAnalyzer" where
  "AnalyzePackage choices a pkgPath files =
     (case files of
        [] \<Rightarrow> (Panicked ''index out of range [0] with length 0'', a)
      | file0 # _ \<Rightarrow>
          (let pkg =
                 (Ident.Name (File.Name file0),
                  fold (\<lambda>file fs. AList.update (Filename (fileSet a (Package file))) file fs)
                    files []);
               a = a\<lparr>packages := AList.update pkgPath pkg (packages a)\<rparr>;
               result =
                 \<lparr>AnalysisResult.Imports = [], Functions = [], Types = [], Variables = [],
                  References = [], Diagnostics = [],
                  Metrics =
                    \<lparr>LinesOfCode = 0, CommentLines = 0, FunctionCount = 0, ComplexityScore = 0,
                     InterfaceCount = 0, StructCount = 0, TestCount = 0\<rparr>\<rparr>;
               st =
                 fold (\<lambda>file (result, a).
                         let fr = AnalyzeFile choices a file;
                             fileResult = fst fr;
                             m = Metrics result;
                             fm = Metrics fileResult
                         in (result
                               \<lparr>AnalysisResult.Imports :=
                                  AnalysisResult.Imports result @ AnalysisResult.Imports fileResult,
                                Functions := Functions result @ Functions fileResult,
                                Types := Types result @ Types fileResult,
                                Variables := Variables result @ Variables fileResult,
                                Diagnostics := Diagnostics result @ Diagnostics fileResult,
                                Metrics :=
                                  \<lparr>LinesOfCode = LinesOfCode m + LinesOfCode fm,
                                   CommentLines = CommentLines m + CommentLines fm,
                                   FunctionCount = FunctionCount m + FunctionCount fm,
                                   ComplexityScore = ComplexityScore m + ComplexityScore fm,
                                   InterfaceCount = InterfaceCount m + InterfaceCount fm,
                                   StructCount = StructCount m + StructCount fm,
                                   TestCount = TestCount m + TestCount fm\<rparr>\<rparr>,
                             snd fr))
                   files (result, a)
           in (Returned (fst st), snd st)))"

definition AnalyzeDependencies :: "ASTAnalyzer \<Rightarrow> File \<Rightarrow> (string \<times> string list) list" where
  "AnalyzeDependencies a file =
     fold (\<lambda>imp deps.
             let path = Trim (BasicLit.Value (ImportSpec.Path imp)) [CHR 0x22]
             in if isImportUsed a file path
                then (let pkg = Ident.Name (File.Name file);
                          old = (case map_of deps pkg of None \<Rightarrow> [] | Some l \<Rightarrow> l)
                      in AList.update pkg (old @ [path]) deps)
                else deps)
          (File.Imports file) []"

section \<open>The language server (\<^verbatim>\<open>lsp.go\<close>)\<close>

record Document =
  URI :: string
  Text :: string
  AST :: File
  Symbols :: "SymbolInfo list"
  Version :: int

text \<open>
  \<^verbatim>\<open>documents\<close> is a map from a URI to a pointer to a \<^verbatim>\<open>Document\<close>; reading a key that is not in
  the map gives the nil pointer, here \<open>None\<close>. The lock \<^verbatim>\<open>mu\<close> is not modelled: the
  handlers below run one at a time.
\<close>

record LanguageServer =
  workspaceRoot :: string
  documents :: "string \<rightharpoonup> Document"
  fileSet :: FileSet

text \<open>\<^verbatim>\<open>token.NewFileSet()\<close>: no file is registered, every position is the zero position.\<close>

definition NewFileSet :: FileSet where
  "NewFileSet = (\<lambda>pos. \<lparr>Filename = '''', Offset = 0, token_Position.Line = 0, Column = 0\<rparr>)"

definition NewLanguageServer :: "string \<Rightarrow> LanguageServer" where
  "NewLanguageServer root =
     \<lparr>workspaceRoot = root, documents = Map.empty, LanguageServer.fileSet = NewFileSet\<rparr>"

text \<open>
  \<^verbatim>\<open>parser.ParseFile(fset, filename, src, parser.ParseComments)\<close> is the library's parser,
  an argument of every function that calls it: it registers the file in the file set and
  returns the tree or an error.
\<close>

type_synonym Parser = "FileSet \<Rightarrow> string \<Rightarrow> string \<Rightarrow> (string + File) \<times> FileSet"

fun nodeToString :: "Node option \<Rightarrow> string" where
  "nodeToString None = ''<nil>''"
| "nodeToString (Some (IdentN n)) = Ident.Name n"
| "nodeToString (Some (StarExpr x)) = ''*'' @ nodeToString (Some x)"
| "nodeToString (Some (ArrayType _ elt)) = ''[]'' @ nodeToString (Some elt)"
| "nodeToString (Some (SelectorExpr x sel)) = nodeToString (Some x) @ ''.'' @ Ident.Name sel"
| "nodeToString (Some n) = goTypeName n"

text \<open>
  \<^verbatim>\<open>(*LanguageServer).getFunctionSignature\<close>, on a \<^verbatim>\<open>*ast.FuncDecl\<close>; the last equation is
  for the nodes that Go's types exclude.
\<close>

fun ls_getFunctionSignature :: "Node \<Rightarrow> string" where
  "ls_getFunctionSignature (FuncDecl _ _ _ _ name ty _) =
     (let params =
            (case FuncType_Params ty of
               None \<Rightarrow> []
             | Some l \<Rightarrow>
                 concat (map (\<lambda>param.
                                let paramType = nodeToString (Field_Type param)
                                in map (\<lambda>n. Ident.Name n @ '' '' @ paramType) (Field_Names param))
                           (FieldList_List l)));
          returns =
            (case FuncType_Results ty of
               None \<Rightarrow> []
             | Some l \<Rightarrow>
                 concat (map (\<lambda>result.
                                let resultType = nodeToString (Field_Type result)
                                in if length (Field_Names result) > 0
                                   then map (\<lambda>n. Ident.Name n @ '' '' @ resultType)
                                          (Field_Names result)
                                   else [resultType])
                           (FieldList_List l)));
          signature = ''func '' @ Ident.Name name @ ''('' @ Join params '', '' @ '')''
      in if length returns > 0
         then (if length returns = 1 then signature @ '' '' @ hd returns
               else signature @ '' ('' @ Join returns '', '' @ '')'')
         else signature)"
| "ls_getFunctionSignature _ = ''''"

definition extractSymbols_visit ::
  "LanguageServer \<Rightarrow> File \<Rightarrow> Node option \<Rightarrow> SymbolInfo list \<Rightarrow> bool \<times> SymbolInfo list" where
  "extractSymbols_visit ls file n symbols =
     (case n of
        Some (FuncDecl p e d recv name ty body) \<Rightarrow>
          (let pos = LanguageServer.fileSet ls p;
               end' = LanguageServer.fileSet ls e
           in (True,
               symbols @
                 [\<lparr>SymbolInfo.Name = Ident.Name name,
                   SymbolInfo.Kind = ''function'',
                   SymbolInfo.Location =
                     mkLocation file
                       (token_Position.Line pos - 1, Column pos - 1)
                       (token_Position.Line end' - 1, Column end' - 1),
                   Container = '''',
                   SymbolInfo.Signature =
                     ls_getFunctionSignature (FuncDecl p e d recv name ty body)\<rparr>]))
      | Some (TypeSpec p e d name tparams ty c) \<Rightarrow>
          (let pos = LanguageServer.fileSet ls p;
               end' = LanguageServer.fileSet ls e
           in (True,
               symbols @
                 [\<lparr>SymbolInfo.Name = Ident.Name name,
                   SymbolInfo.Kind = ''type'',
                   SymbolInfo.Location =
                     mkLocation file
                       (token_Position.Line pos - 1, Column pos - 1)
                       (token_Position.Line end' - 1, Column end' - 1),
                   Container = '''',
                   SymbolInfo.Signature = ''''\<rparr>]))
      | _ \<Rightarrow> (True, symbols))"

definition extractSymbols :: "LanguageServer \<Rightarrow> File \<Rightarrow> SymbolInfo list" where
  "extractSymbols ls file = Inspect (extractSymbols_visit ls file) (fileNode file) []"

text \<open>
  \<^verbatim>\<open>parseDocument\<close> returns an \<^verbatim>\<open>error\<close> (\<open>None\<close> is nil). The new document's version is
  \<^verbatim>\<open>ls.documents[uri].Version + 1\<close>: the field of the entry now in the map, a nil pointer
  when the URI has no entry, and reading a field through a nil pointer panics, before the
  map is written.
\<close>

definition parseDocument ::
  "Parser \<Rightarrow> LanguageServer \<Rightarrow> string \<Rightarrow> string \<Rightarrow> string option Exec \<times> LanguageServer" where
  "parseDocument parse ls uri content =
     (let pr = parse (LanguageServer.fileSet ls) uri content;
          ls = ls\<lparr>LanguageServer.fileSet := snd pr\<rparr>
      in case fst pr of
           Inl err \<Rightarrow> (Returned (Some (''failed to parse document: '' @ err)), ls)
         | Inr file \<Rightarrow>
             (let symbols = extractSymbols ls file
              in case documents ls uri of
                   None \<Rightarrow>
                     (Panicked ''runtime error: invalid memory address or nil pointer dereference'',
                      ls)
                 | Some old \<Rightarrow>
                     (Returned None,
                      ls\<lparr>documents :=
                           (documents ls)
                             (uri \<mapsto>
                                \<lparr>Document.URI = uri,
                                 Document.Text = content,
                                 AST = file,
                                 Symbols = symbols,
                                 Document.Version = Document.Version old + 1\<rparr>)\<rparr>)))"

subsection \<open>The handlers\<close>

text \<open>
  A handler reads the request, may change the server and writes one response with
  \<^verbatim>\<open>writeJSON\<close> or \<^verbatim>\<open>writeError\<close>, unless it panics. The request body is given decoded:
  \<open>Inl\<close> the error of \<^verbatim>\<open>json.Decode\<close>, \<open>Inr\<close> the \<^verbatim>\<open>TextDocumentItem\<close>.
\<close>

datatype Payload =
    ErrorResponse string
  | StringMap "(string \<times> string) list"
  | SymbolList "SymbolInfo list"

datatype Response = Response (status: int) (payload: Payload)

definition writeJSON :: "int \<Rightarrow> Payload \<Rightarrow> Response" where
  "writeJSON st v = Response st v"

definition writeError :: "int \<Rightarrow> string \<Rightarrow> Response" where
  "writeError st err = writeJSON st (ErrorResponse err)"

definition StatusOK :: int where "StatusOK = 200"
definition StatusBadRequest :: int where "StatusBadRequest = 400"
definition StatusInternalServerError :: int where "StatusInternalServerError = 500"
definition StatusNotImplemented :: int where "StatusNotImplemented = 501"

definition handleOpenDocument ::
  "Parser \<Rightarrow> LanguageServer \<Rightarrow> string + TextDocumentItem \<Rightarrow> Response Exec \<times> LanguageServer" where
  "handleOpenDocument parse ls body =
     (case body of
        Inl err \<Rightarrow> (Returned (writeError StatusBadRequest err), ls)
      | Inr doc \<Rightarrow>
          (case parseDocument parse ls (TextDocumentItem.URI doc) (TextDocumentItem.Text doc) of
             (Panicked msg, ls') \<Rightarrow> (Panicked msg, ls')
           | (Returned (Some err), ls') \<Rightarrow>
               (Returned (writeError StatusInternalServerError err), ls')
           | (Returned None, ls') \<Rightarrow>
               (Returned
                  (writeJSON StatusOK
                     (StringMap [(''status'', ''opened''), (''uri'', TextDocumentItem.URI doc)])),
                ls')))"

definition handleCloseDocument ::
  "LanguageServer \<Rightarrow> string + TextDocumentItem \<Rightarrow> Response Exec \<times> LanguageServer" where
  "handleCloseDocument ls body =
     (case body of
        Inl err \<Rightarrow> (Returned (writeError StatusBadRequest err), ls)
      | Inr doc \<Rightarrow>
          (Returned
             (writeJSON StatusOK
                (StringMap [(''status'', ''closed''), (''uri'', TextDocumentItem.URI doc)])),
           ls\<lparr>documents := (documents ls)(TextDocumentItem.URI doc := None)\<rparr>))"

definition handleChangeDocument ::
  "Parser \<Rightarrow> LanguageServer \<Rightarrow> string + TextDocumentItem \<Rightarrow> Response Exec \<times> LanguageServer" where
  "handleChangeDocument parse ls body =
     (case body of
        Inl err \<Rightarrow> (Returned (writeError StatusBadRequest err), ls)
      | Inr doc \<Rightarrow>
          (case parseDocument parse ls (TextDocumentItem.URI doc) (TextDocumentItem.Text doc) of
             (Panicked msg, ls') \<Rightarrow> (Panicked msg, ls')
           | (Returned (Some err), ls') \<Rightarrow>
               (Returned (writeError StatusInternalServerError err), ls')
           | (Returned None, ls') \<Rightarrow>
               (Returned
                  (writeJSON StatusOK
                     (StringMap [(''status'', ''changed''), (''uri'', TextDocumentItem.URI doc)])),
                ls')))"


section \<open>Properties\<close>

subsection \<open>What \<^verbatim>\<open>ast.Inspect\<close> visits\<close>

text \<open>
  \<open>nodes n\<close> lists the nodes of the subtree below \<open>n\<close> in the order of the walk, \<open>n\<close>
  first. A closure that always returns true and does nothing at \<^verbatim>\<open>nil\<close> is run once at
  every node of the subtree, in that order.
\<close>

function nodes :: "Node \<Rightarrow> Node list" where
  "nodes n = n # concat (map nodes (children n))"
  by pat_completeness auto
termination
  by (relation "measure weight") (auto simp: children_weight)

declare nodes.simps [simp del]
declare Inspect.simps [simp del]

lemma fold_concat_map:
  assumes "\<And>x s. x \<in> set xs \<Longrightarrow> F x s = fold g (h x) s"
  shows "fold F xs s = fold g (concat (map h xs)) s"
  using assms by (induction xs arbitrary: s) simp_all

lemma Inspect_fold:
  assumes nil: "\<And>s. snd (f None s) = s"
    and visit: "\<And>n s. f (Some n) s = (True, g n s)"
  shows "Inspect f n s = fold g (nodes n) s"
proof (induction n arbitrary: s rule: measure_induct_rule [where f = weight])
  case (less n)
  have "fold (Inspect f) (children n) (g n s) = fold g (concat (map nodes (children n))) (g n s)"
    by (rule fold_concat_map) (simp add: less.IH children_weight)
  then show ?case
    by (subst Inspect.simps, subst nodes.simps) (simp add: visit nil)
qed

lemma fold_skip: "fold (\<lambda>n s. s) ns s = s"
  by (induction ns) simp_all

lemma fold_append_emit: "fold (\<lambda>n acc. acc @ e n) ns acc = acc @ concat (map e ns)"
  by (induction ns arbitrary: acc) simp_all

lemma fold_count:
  "fold (\<lambda>n c. if P n then c + 1 else c) ns (c::int) = c + int (length (filter P ns))"
  by (induction ns arbitrary: c) simp_all

subsection \<open>The order of a range over a map\<close>

text \<open>
  Whatever the choices, \<open>mapRange\<close> yields as many entries as the map has, and a sum over
  them is the sum over the map: the loop of \<^verbatim>\<open>calculateMetrics\<close> over \<^verbatim>\<open>a.complexity\<close> gives
  the same score in every order.
\<close>

lemma sum_list_without_nth:
  fixes f :: "'a \<Rightarrow> int"
  assumes "i < length ys"
  shows "f (ys ! i) + sum_list (map f (take i ys @ drop (Suc i) ys)) = sum_list (map f ys)"
proof -
  have "sum_list (map f ys) = sum_list (map f (take i ys @ ys ! i # drop (Suc i) ys))"
    using id_take_nth_drop [OF assms] by simp
  then show ?thesis by simp
qed

lemma mapRange_sum:
  fixes f :: "'a \<Rightarrow> int"
  shows "sum_list (map f (mapRange cs xs)) = sum_list (map f xs)"
proof (induction cs xs rule: mapRange.induct)
  case (3 c cs x xs)
  let ?i = "c mod length (x # xs)"
  have i: "?i < length (x # xs)" by simp
  have "sum_list (map f (mapRange (c # cs) (x # xs))) =
        f ((x # xs) ! ?i) + sum_list (map f (mapRange cs (take ?i (x # xs) @ drop (Suc ?i) (x # xs))))"
    by (simp add: Let_def del: take_Cons' drop_Suc_Cons nth_Cons')
  also have "\<dots> = f ((x # xs) ! ?i) + sum_list (map f (take ?i (x # xs) @ drop (Suc ?i) (x # xs)))"
    using "3.IH" [OF refl] by simp
  also have "\<dots> = sum_list (map f (x # xs))"
    by (rule sum_list_without_nth [OF i])
  finally show ?case .
qed simp_all

lemma mapRange_length: "length (mapRange cs xs) = length xs"
proof (induction cs xs rule: mapRange.induct)
  case (3 c cs x xs)
  let ?i = "c mod length (x # xs)"
  have i: "?i < length (x # xs)" by simp
  have "length (take ?i (x # xs) @ drop (Suc ?i) (x # xs)) = length xs"
    using i by (simp del: take_Cons' drop_Suc_Cons)
  with "3.IH" [OF refl] show ?case
    by (simp add: Let_def del: take_Cons' drop_Suc_Cons nth_Cons')
qed simp_all

subsection \<open>Cyclomatic complexity\<close>

text \<open>
  The node types in the case list of \<^verbatim>\<open>calculateFunctionComplexity\<close>: \<^verbatim>\<open>*ast.IfStmt\<close>,
  \<^verbatim>\<open>*ast.ForStmt\<close>, \<^verbatim>\<open>*ast.RangeStmt\<close>, \<^verbatim>\<open>*ast.CaseClause\<close>, \<^verbatim>\<open>*ast.CommClause\<close>,
  \<^verbatim>\<open>*ast.BinaryExpr\<close>.
\<close>

fun isComplexityNode :: "Node \<Rightarrow> bool" where
  "isComplexityNode (IfStmt _ _ _ _) = True"
| "isComplexityNode (ForStmt _ _ _ _) = True"
| "isComplexityNode (RangeStmt _ _ _ _) = True"
| "isComplexityNode (CaseClause _ _) = True"
| "isComplexityNode (CommClause _ _) = True"
| "isComplexityNode (BinaryExpr _ _ _) = True"
| "isComplexityNode _ = False"

text \<open>
  The nodes that the specification names: a conditional branch, a loop, a case arm, or a
  boolean binary operator node. An operator is taken as boolean when its result is
  (\<^verbatim>\<open>&&\<close>, \<^verbatim>\<open>||\<close> and the six comparisons), the widest reading of the words.
\<close>

fun spec_isBooleanOperator :: "Token \<Rightarrow> bool" where
  "spec_isBooleanOperator LAND = True"
| "spec_isBooleanOperator LOR = True"
| "spec_isBooleanOperator EQL = True"
| "spec_isBooleanOperator LSS = True"
| "spec_isBooleanOperator GTR = True"
| "spec_isBooleanOperator NEQ = True"
| "spec_isBooleanOperator LEQ = True"
| "spec_isBooleanOperator GEQ = True"
| "spec_isBooleanOperator _ = False"

fun spec_isComplexityNode :: "Node \<Rightarrow> bool" where
  "spec_isComplexityNode (IfStmt _ _ _ _) = True"
| "spec_isComplexityNode (ForStmt _ _ _ _) = True"
| "spec_isComplexityNode (RangeStmt _ _ _ _) = True"
| "spec_isComplexityNode (CaseClause _ _) = True"
| "spec_isComplexityNode (CommClause _ _) = True"
| "spec_isComplexityNode (BinaryExpr _ op _) = spec_isBooleanOperator op"
| "spec_isComplexityNode _ = False"

text \<open>\<^verbatim>\<open>func sum(a, b int) int { return a + b }\<close>, with positions \<open>100 * line + column\<close>.\<close>

definition sumDecl :: Node where
  "sumDecl =
     FuncDecl 101 140 None None (Ident 106 ''sum'')
       (FuncType None
          (Some (FieldList
             [FieldN None [Ident 110 ''a'', Ident 113 ''b''] (Some (IdentN (Ident 115 ''int'')))
                None None]))
          (Some (FieldList [FieldN None [] (Some (IdentN (Ident 120 ''int''))) None None])))
       (Some (Other ''*ast.BlockStmt''
          [Other ''*ast.ReturnStmt''
             [BinaryExpr (IdentN (Ident 133 ''a'')) ADD (IdentN (Ident 137 ''b''))]]))"

lemma calculateFunctionComplexity_visit_Some:
  "calculateFunctionComplexity_visit (Some n) c =
     (True, if isComplexityNode n then c + 1 else c)"
  by (cases n) (simp_all add: calculateFunctionComplexity_visit_def)

lemma calculateFunctionComplexity_visit_None:
  "snd (calculateFunctionComplexity_visit None c) = c"
  by (simp add: calculateFunctionComplexity_visit_def)

lemma calculateFunctionComplexity_eq:
  "calculateFunctionComplexity fn = 1 + int (length (filter isComplexityNode (nodes fn)))"
  unfolding calculateFunctionComplexity_def
  by (simp add: Inspect_fold [OF calculateFunctionComplexity_visit_None
        calculateFunctionComplexity_visit_Some] fold_count)

text \<open>
  C5, as the code has it: the complexity of a function declaration is 1 plus the number
  of nodes in its subtree that are an \<^verbatim>\<open>if\<close> statement, a \<^verbatim>\<open>for\<close> or \<^verbatim>\<open>range\<close> loop, a
  case clause of a \<^verbatim>\<open>switch\<close> or \<^verbatim>\<open>select\<close>, or a binary expression with any operator,
  arithmetic ones included; no other node adds to it.
\<close>

theorem complexity_counts_every_binary_expr:
  "calculateFunctionComplexity fn = 1 + int (length (filter isComplexityNode (nodes fn)))"
  by (rule calculateFunctionComplexity_eq)

theorem complexity_counts_every_binary_expr_witness:
  "calculateFunctionComplexity sumDecl = 1 + int (length (filter isComplexityNode (nodes sumDecl)))"
  using complexity_counts_every_binary_expr [of sumDecl] .

text \<open>
  C5 as the specification words it counts only boolean binary operators. The function
  \<^verbatim>\<open>sum\<close> has one binary expression, an addition, and no branch, loop or case: its
  complexity is 2, not 1.
\<close>

theorem complexity_boolean_only_counterexample:
  "calculateFunctionComplexity sumDecl = 2 \<and>
   calculateFunctionComplexity sumDecl \<noteq>
     1 + int (length (filter spec_isComplexityNode (nodes sumDecl)))"
  by code_simp

subsection \<open>The passes at a node\<close>

lemma isImportUsed_visit_noUses:
  assumes "Uses (typeInfo a) = Map.empty"
  shows "isImportUsed_visit a path n used = (True, used)"
  using assms
  by (simp add: isImportUsed_visit_def split: option.splits Node.splits)

lemma isImportUsed_noUses:
  assumes "Uses (typeInfo a) = Map.empty"
  shows "isImportUsed a file path = False"
proof -
  have "Inspect (isImportUsed_visit a path) (fileNode file) False =
        fold (\<lambda>n used. used) (nodes (fileNode file)) False"
    by (rule Inspect_fold) (simp_all add: isImportUsed_visit_noUses [OF assms])
  then show ?thesis by (simp add: isImportUsed_def fold_skip)
qed

text \<open>
  What the closure of \<^verbatim>\<open>analyzeFunctions\<close> does at a node: \<open>functionsAt\<close> is what it appends
  to \<^verbatim>\<open>functions\<close>, \<open>complexityAt\<close> the entry it writes to \<^verbatim>\<open>a.complexity\<close>. \<open>writeAll\<close>
  writes a list of entries in order, and \<open>fileComplexities\<close> are the entries that one
  analysis of a file writes.
\<close>

definition functionsAt :: "ASTAnalyzer \<Rightarrow> File \<Rightarrow> Node \<Rightarrow> FunctionInfo list" where
  "functionsAt a file n = fst (snd (analyzeFunctions_visit a file (Some n) ([], [])))"

definition complexityAt :: "Node \<Rightarrow> (string \<times> int) list" where
  "complexityAt n =
     (case n of
        FuncDecl _ _ _ _ name _ _ \<Rightarrow> [(Ident.Name name, calculateFunctionComplexity n)]
      | _ \<Rightarrow> [])"

definition writeAll :: "(string \<times> int) list \<Rightarrow> (string \<times> int) list \<Rightarrow> (string \<times> int) list" where
  "writeAll kvs m = fold (\<lambda>kv. AList.update (fst kv) (snd kv)) kvs m"

lemma analyzeFunctions_visit_Some:
  "analyzeFunctions_visit a file (Some n) st =
     (True, fst st @ functionsAt a file n, writeAll (complexityAt n) (snd st))"
  by (cases n)
     (simp_all add: analyzeFunctions_visit_def functionsAt_def complexityAt_def writeAll_def
        Let_def)

lemma analyzeFunctions_visit_None: "snd (analyzeFunctions_visit a file None st) = st"
  by (simp add: analyzeFunctions_visit_def)

lemma fold_pair:
  "fold (\<lambda>n st. (fst st @ e n, writeAll (k n) (snd st))) ns st =
     (fst st @ concat (map e ns), writeAll (concat (map k ns)) (snd st))"
  by (induction ns arbitrary: st) (simp_all add: writeAll_def)

definition fileComplexities :: "File \<Rightarrow> (string \<times> int) list" where
  "fileComplexities file = concat (map complexityAt (nodes (fileNode file)))"

lemma analyzeFunctions_eq:
  "analyzeFunctions a file =
     (concat (map (functionsAt a file) (nodes (fileNode file))),
      a\<lparr>complexity := writeAll (fileComplexities file) (complexity a)\<rparr>)"
  unfolding analyzeFunctions_def fileComplexities_def
  by (simp add: Inspect_fold [OF analyzeFunctions_visit_None analyzeFunctions_visit_Some]
        fold_pair Let_def)

lemma functionsAt_Complexity:
  "fi \<in> set (functionsAt a file n) \<Longrightarrow> Complexity fi = calculateFunctionComplexity n"
  by (cases n) (auto simp: functionsAt_def analyzeFunctions_visit_def Let_def)

lemma Functions_AnalyzeFile:
  "Functions (fst (AnalyzeFile choices a file)) =
     concat (map (functionsAt a file) (nodes (fileNode file)))"
  by (simp add: AnalyzeFile_def analyzeFunctions_eq Let_def)

lemma Complexity_ge_1:
  assumes "fi \<in> set (Functions (fst (AnalyzeFile choices a file)))"
  shows "1 \<le> Complexity fi"
proof -
  from assms obtain n where "fi \<in> set (functionsAt a file n)"
    by (auto simp: Functions_AnalyzeFile)
  then have "Complexity fi = calculateFunctionComplexity n"
    by (rule functionsAt_Complexity)
  then show ?thesis
    by (simp add: calculateFunctionComplexity_eq)
qed

subsection \<open>The passes that do not read the complexity map\<close>

lemma isImportUsed_complexity [simp]:
  "isImportUsed (a\<lparr>complexity := m\<rparr>) file path = isImportUsed a file path"
  by (simp add: isImportUsed_def isImportUsed_visit_def [abs_def]
        cong: option.case_cong Node.case_cong)

lemma analyzeImports_complexity [simp]:
  "analyzeImports (a\<lparr>complexity := m\<rparr>) file = analyzeImports a file"
  by (simp add: analyzeImports_def)

lemma analyzeTypes_complexity [simp]:
  "analyzeTypes (a\<lparr>complexity := m\<rparr>) file = analyzeTypes a file"
  by (simp add: analyzeTypes_def analyzeTypes_visit_def [abs_def]
        cong: option.case_cong Node.case_cong)

lemma analyzeVariables_complexity [simp]:
  "analyzeVariables (a\<lparr>complexity := m\<rparr>) file = analyzeVariables a file"
  by (simp add: analyzeVariables_def analyzeVariables_visit_def [abs_def]
        cong: option.case_cong Node.case_cong)

lemma analyzeReferences_complexity [simp]:
  "analyzeReferences c (a\<lparr>complexity := m\<rparr>) file = analyzeReferences c a file"
  by (simp add: analyzeReferences_def analyzeReferences_defs_def [abs_def]
        analyzeReferences_uses_def [abs_def] cong: option.case_cong Node.case_cong)

lemma runDiagnostics_complexity [simp]:
  "runDiagnostics (a\<lparr>complexity := m\<rparr>) file = runDiagnostics a file"
  by (simp add: runDiagnostics_def runDiagnostics_visit_def [abs_def] Let_def
        cong: option.case_cong Node.case_cong if_cong)

lemma functionsAt_complexity [simp]:
  "functionsAt (a\<lparr>complexity := m\<rparr>) file = functionsAt a file"
  by (rule ext) (simp add: functionsAt_def analyzeFunctions_visit_def cong: Node.case_cong)

lemma calculateMetrics_complexity:
  "sum_list (map snd m) = sum_list (map snd m') \<Longrightarrow>
   calculateMetrics (a\<lparr>complexity := m\<rparr>) file = calculateMetrics (a\<lparr>complexity := m'\<rparr>) file"
  by (simp add: calculateMetrics_def Let_def)

lemma AnalyzeFile_eq:
  "AnalyzeFile choices a file =
     (\<lparr>AnalysisResult.Imports = analyzeImports a file,
       Functions = concat (map (functionsAt a file) (nodes (fileNode file))),
       Types = analyzeTypes a file,
       Variables = analyzeVariables a file,
       References = analyzeReferences choices a file,
       Diagnostics = runDiagnostics a file,
       Metrics =
         calculateMetrics (a\<lparr>complexity := writeAll (fileComplexities file) (complexity a)\<rparr>) file\<rparr>,
      a\<lparr>complexity := writeAll (fileComplexities file) (complexity a)\<rparr>)"
  by (simp add: AnalyzeFile_def analyzeFunctions_eq Let_def)

subsection \<open>Writing the same entries twice\<close>

lemma writeAll_map_of: "map_of (writeAll kvs m) = map_of m ++ map_of (rev kvs)"
  by (induction kvs arbitrary: m) (simp_all add: writeAll_def update_conv' map_add_upd_left)

lemma writeAll_distinct: "distinct (map fst m) \<Longrightarrow> distinct (map fst (writeAll kvs m))"
  by (induction kvs arbitrary: m) (simp_all add: writeAll_def distinct_update)

lemma writeAll_keys_present:
  "fst ` set kvs \<subseteq> fst ` set m \<Longrightarrow> map fst (writeAll kvs m) = map fst m"
proof (induction kvs arbitrary: m)
  case Nil
  then show ?case by (simp add: writeAll_def)
next
  case (Cons kv kvs)
  have keys: "map fst (AList.update (fst kv) (snd kv) m) = map fst m"
    using Cons.prems by (auto simp: update_keys)
  then have "fst ` set kvs \<subseteq> fst ` set (AList.update (fst kv) (snd kv) m)"
    using Cons.prems by (simp add: dom_update) blast
  from Cons.IH [OF this] keys show ?case
    by (simp add: writeAll_def)
qed

lemma writeAll_keys_kept: "fst ` set m \<subseteq> fst ` set (writeAll kvs m)"
proof (induction kvs arbitrary: m)
  case Nil
  then show ?case by (simp add: writeAll_def)
next
  case (Cons kv kvs)
  have "fst ` set m \<subseteq> fst ` set (AList.update (fst kv) (snd kv) m)"
    by (auto simp: dom_update)
  also have "\<dots> \<subseteq> fst ` set (writeAll kvs (AList.update (fst kv) (snd kv) m))"
    by (rule Cons.IH)
  finally show ?case by (simp add: writeAll_def)
qed

lemma writeAll_keys_written: "fst ` set kvs \<subseteq> fst ` set (writeAll kvs m)"
proof (induction kvs arbitrary: m)
  case Nil
  then show ?case by simp
next
  case (Cons kv kvs)
  have "fst kv \<in> fst ` set (AList.update (fst kv) (snd kv) m)"
    by (simp add: dom_update)
  then have "fst kv \<in> fst ` set (writeAll kvs (AList.update (fst kv) (snd kv) m))"
    using writeAll_keys_kept [of "AList.update (fst kv) (snd kv) m" kvs] by blast
  moreover have "fst ` set kvs \<subseteq> fst ` set (writeAll kvs (AList.update (fst kv) (snd kv) m))"
    by (rule Cons.IH)
  ultimately show ?case by (simp add: writeAll_def)
qed

lemma alist_eqI:
  assumes "distinct (map fst xs)" and "map fst xs = map fst ys" and "map_of xs = map_of ys"
  shows "xs = ys"
  using assms
proof (induction xs arbitrary: ys)
  case Nil
  then show ?case by simp
next
  case (Cons x xs)
  then obtain y ys' where ys: "ys = y # ys'" by (cases ys) auto
  with Cons.prems have k: "fst x = fst y" and ks: "map fst xs = map fst ys'"
    and d: "distinct (map fst xs)" and nx: "fst x \<notin> fst ` set xs"
    by auto
  have "map_of (x # xs) (fst x) = map_of ys (fst x)"
    using Cons.prems(3) by (rule fun_cong)
  with k ys have xy: "x = y" by (cases x, cases y) simp
  have "map_of xs = map_of ys'"
  proof
    fix k'
    show "map_of xs k' = map_of ys' k'"
    proof (cases "k' = fst x")
      case True
      with nx ks have "k' \<notin> fst ` set xs" "k' \<notin> fst ` set ys'"
        by (simp_all flip: set_map)
      then have "map_of xs k' = None" "map_of ys' k' = None"
        by (simp_all add: map_of_eq_None_iff)
      then show ?thesis by simp
    next
      case False
      have "map_of (x # xs) k' = map_of ys k'"
        using Cons.prems(3) by (rule fun_cong)
      with False ys xy show ?thesis by (cases y) simp
    qed
  qed
  with Cons.IH [OF d ks] xy ys show ?case by simp
qed

lemma writeAll_idem:
  assumes "distinct (map fst m)"
  shows "writeAll kvs (writeAll kvs m) = writeAll kvs m"
proof (rule alist_eqI)
  show "distinct (map fst (writeAll kvs (writeAll kvs m)))"
    by (intro writeAll_distinct assms)
  show "map fst (writeAll kvs (writeAll kvs m)) = map fst (writeAll kvs m)"
    by (rule writeAll_keys_present) (rule writeAll_keys_written)
  show "map_of (writeAll kvs (writeAll kvs m)) = map_of (writeAll kvs m)"
    by (rule ext) (simp add: writeAll_map_of map_add_def split: option.splits)
qed

subsection \<open>The analyzers that the program can reach\<close>

text \<open>
  The exported methods of the analyzer, as calls, and the analyzer that
  \<^verbatim>\<open>NewASTAnalyzer\<close> returns after a list of calls (\<^verbatim>\<open>AnalyzeDependencies\<close> writes nothing).
\<close>

datatype Call =
    CallAnalyzeFile "nat list" File
  | CallAnalyzePackage "nat list" string "File list"
  | CallAnalyzeDependencies File

fun call :: "Call \<Rightarrow> ASTAnalyzer \<Rightarrow> ASTAnalyzer" where
  "call (CallAnalyzeFile choices file) a = snd (AnalyzeFile choices a file)"
| "call (CallAnalyzePackage choices pkgPath files) a = snd (AnalyzePackage choices a pkgPath files)"
| "call (CallAnalyzeDependencies file) a = a"

definition afterCalls :: "FileSet \<Rightarrow> Call list \<Rightarrow> ASTAnalyzer" where
  "afterCalls fset calls = fold call calls (NewASTAnalyzer fset)"

text \<open>
  What every such analyzer keeps: the two maps of \<^verbatim>\<open>typeInfo\<close> are empty, and the
  complexity map has one entry per key.
\<close>

definition untyped :: "ASTAnalyzer \<Rightarrow> bool" where
  "untyped a \<longleftrightarrow>
     Defs (typeInfo a) = Map.empty \<and> Uses (typeInfo a) = Map.empty \<and>
     distinct (map fst (complexity a))"

lemma untyped_New: "untyped (NewASTAnalyzer fset)"
  by (simp add: untyped_def NewASTAnalyzer_def)

lemma untyped_AnalyzeFile: "untyped a \<Longrightarrow> untyped (snd (AnalyzeFile choices a file))"
  by (simp add: untyped_def AnalyzeFile_eq writeAll_distinct)

lemma untyped_fold_step:
  assumes step: "\<And>file p. snd (step file p) = snd (AnalyzeFile choices (snd p) file)"
    and st: "untyped (snd st)"
  shows "untyped (snd (fold step files st))"
  using st
proof (induction files arbitrary: st)
  case Nil
  then show ?case by simp
next
  case (Cons f fs)
  have "untyped (snd (step f st))"
    using Cons.prems by (simp add: step untyped_AnalyzeFile)
  then show ?case by (simp add: Cons.IH)
qed

lemma untyped_AnalyzePackage:
  assumes "untyped a"
  shows "untyped (snd (AnalyzePackage choices a pkgPath files))"
proof (cases files)
  case Nil
  with assms show ?thesis by (simp add: AnalyzePackage_def)
next
  case (Cons file0 rest)
  have start: "untyped (snd (r, a\<lparr>packages := p\<rparr>))" for p and r :: AnalysisResult
    using assms by (simp add: untyped_def)
  show ?thesis
    unfolding AnalyzePackage_def Cons list.case Let_def snd_conv
    by (rule untyped_fold_step [OF _ start]) (simp add: split_def)
qed

lemma untyped_call: "untyped a \<Longrightarrow> untyped (call c a)"
  by (cases c) (simp_all add: untyped_AnalyzeFile untyped_AnalyzePackage)

lemma untyped_afterCalls: "untyped (afterCalls fset calls)"
proof -
  have "untyped a \<Longrightarrow> untyped (fold call calls a)" for a
    by (induction calls arbitrary: a) (simp_all add: untyped_call)
  then show ?thesis
    by (simp add: afterCalls_def untyped_New)
qed

subsection \<open>References and imports without type information\<close>

lemma analyzeReferences_defs_noDefs:
  assumes "Defs (typeInfo a) = Map.empty"
  shows "analyzeReferences_defs a file n refMap = (True, refMap)"
  using assms
  by (simp add: analyzeReferences_defs_def split: option.splits Node.splits)

lemma analyzeReferences_uses_empty: "analyzeReferences_uses a file n [] = (True, [])"
  by (simp add: analyzeReferences_uses_def split: option.splits Node.splits)

lemma analyzeReferences_noDefs:
  assumes "Defs (typeInfo a) = Map.empty"
  shows "analyzeReferences choices a file = []"
proof -
  have defs: "Inspect (analyzeReferences_defs a file) (fileNode file) [] = []"
    using Inspect_fold [of "analyzeReferences_defs a file" "\<lambda>n refMap. refMap" "fileNode file" "[]"]
    by (simp add: analyzeReferences_defs_noDefs [OF assms] fold_skip)
  have "Inspect (analyzeReferences_uses a file) n [] = []" for n
  proof (induction n rule: measure_induct_rule [where f = weight])
    case (less n)
    have "fold (Inspect (analyzeReferences_uses a file)) cs [] = []"
      if "set cs \<subseteq> set (children n)" for cs
      using that by (induction cs) (simp_all add: less.IH children_weight)
    then show ?case
      by (subst Inspect.simps) (simp add: analyzeReferences_uses_empty)
  qed
  with defs show ?thesis
    by (simp add: analyzeReferences_def)
qed

lemma analyzeImports_noUses:
  assumes "Uses (typeInfo a) = Map.empty"
  shows "map Used (analyzeImports a file) = replicate (length (File.Imports file)) False"
  by (simp add: analyzeImports_def isImportUsed_noUses [OF assms] Let_def comp_def
        map_replicate_const)

lemma AnalyzeDependencies_noUses:
  assumes "Uses (typeInfo a) = Map.empty"
  shows "AnalyzeDependencies a file = []"
proof -
  have "fold (\<lambda>imp deps. deps) imps ([] :: (string \<times> string list) list) = []" for imps :: "ImportSpec list"
    by (rule fold_skip)
  then show ?thesis
    by (simp add: AnalyzeDependencies_def isImportUsed_noUses [OF assms] Let_def)
qed

text \<open>The diagnostic that \<^verbatim>\<open>runDiagnostics\<close> builds for an import that is not used.\<close>

definition unusedImport :: "ASTAnalyzer \<Rightarrow> File \<Rightarrow> ImportSpec \<Rightarrow> Diagnostic" where
  "unusedImport a file imp =
     (let path = Trim (BasicLit.Value (ImportSpec.Path imp)) [CHR 0x22];
          pos = ASTAnalyzer.fileSet a (ImportSpec_Pos imp)
      in \<lparr>Severity = ''warning'',
          Message = ''Unused import: '' @ path,
          Diagnostic.Location =
            mkLocation file
              (token_Position.Line pos - 1, Column pos - 1)
              (token_Position.Line pos - 1, Column pos - 1 + int (length path)),
          Code = ''unused-import'',
          Source = ''go-analyzer''\<rparr>)"

text \<open>What the closure of \<^verbatim>\<open>runDiagnostics\<close> appends at a node.\<close>

definition missingDocAt :: "ASTAnalyzer \<Rightarrow> File \<Rightarrow> Node \<Rightarrow> Diagnostic list" where
  "missingDocAt a file n = snd (runDiagnostics_visit a file (Some n) [])"

lemma runDiagnostics_visit_Some:
  "runDiagnostics_visit a file (Some n) ds = (True, ds @ missingDocAt a file n)"
  by (cases n) (simp_all add: runDiagnostics_visit_def missingDocAt_def Let_def)

lemma runDiagnostics_visit_None: "snd (runDiagnostics_visit a file None ds) = ds"
  by (simp add: runDiagnostics_visit_def)

lemma missingDocAt_Code: "d \<in> set (missingDocAt a file n) \<Longrightarrow> Code d = ''missing-doc''"
  by (cases n) (auto simp: missingDocAt_def runDiagnostics_visit_def Let_def split: if_splits)

lemma runDiagnostics_noUses:
  assumes "Uses (typeInfo a) = Map.empty"
  shows "runDiagnostics a file =
           map (unusedImport a file) (File.Imports file) @
           concat (map (missingDocAt a file) (nodes (fileNode file)))"
proof -
  have "concat (map (\<lambda>imp. [unusedImport a file imp]) imps) = map (unusedImport a file) imps"
    for imps
    by (induction imps) simp_all
  then show ?thesis
    unfolding runDiagnostics_def
    by (simp add: Inspect_fold [OF runDiagnostics_visit_None runDiagnostics_visit_Some]
          fold_append_emit isImportUsed_noUses [OF assms] Let_def unusedImport_def)
qed

lemma unused_import_diagnostics_noUses:
  assumes "Uses (typeInfo a) = Map.empty"
  shows "filter (\<lambda>d. Code d = ''unused-import'') (runDiagnostics a file) =
           map (unusedImport a file) (File.Imports file)"
proof -
  have 1: "filter (\<lambda>d. Code d = ''unused-import'') (map (unusedImport a file) imps) =
           map (unusedImport a file) imps" for imps
    by (induction imps) (simp_all add: unusedImport_def Let_def)
  have 2: "filter (\<lambda>d. Code d = ''unused-import'') (concat (map (missingDocAt a file) ns)) = []"
    for ns
    by (auto simp: filter_empty_conv dest: missingDocAt_Code)
  show ?thesis
    by (simp add: runDiagnostics_noUses [OF assms] 1 2)
qed

subsection \<open>Examples\<close>

text \<open>
  A position table for the examples: position \<open>100 * line + column\<close>.
\<close>

definition exampleFileSet :: FileSet where
  "exampleFileSet =
     (\<lambda>p. \<lparr>Filename = ''example.go'', Offset = p, token_Position.Line = p div 100,
            Column = p mod 100\<rparr>)"

text \<open>
  The file of the end-to-end case of the specification: package \<^verbatim>\<open>main\<close>; the imports
  \<^verbatim>\<open>"fmt"\<close> (line 4) and \<^verbatim>\<open>"os"\<close> (line 5) in one import declaration;
  \<^verbatim>\<open>func Hello(b bool) { if b { fmt.Println("hi") } }\<close> on lines 8 to 12, without a doc
  comment; \<^verbatim>\<open>func helper() {}\<close> on line 14.
\<close>

definition fmtImport :: ImportSpec where
  "fmtImport = ImportSpec None None (BasicLit 405 ([CHR 0x22] @ ''fmt'' @ [CHR 0x22])) None"

definition osImport :: ImportSpec where
  "osImport = ImportSpec None None (BasicLit 505 ([CHR 0x22] @ ''os'' @ [CHR 0x22])) None"

definition helloDecl :: Node where
  "helloDecl =
     FuncDecl 801 1202 None None (Ident 806 ''Hello'')
       (FuncType None
          (Some (FieldList
             [FieldN None [Ident 812 ''b''] (Some (IdentN (Ident 814 ''bool''))) None None]))
          None)
       (Some (Other ''*ast.BlockStmt''
          [IfStmt None (IdentN (Ident 908 ''b''))
             (Other ''*ast.BlockStmt''
                [Other ''*ast.ExprStmt''
                   [Other ''*ast.CallExpr''
                      [SelectorExpr (IdentN (Ident 1009 ''fmt'')) (Ident 1013 ''Println''),
                       BasicLitN (BasicLit 1021 ([CHR 0x22] @ ''hi'' @ [CHR 0x22]))]]])
             None]))"

definition helperDecl :: Node where
  "helperDecl =
     FuncDecl 1401 1417 None None (Ident 1406 ''helper'')
       (FuncType None (Some (FieldList [])) None)
       (Some (Other ''*ast.BlockStmt'' []))"

definition exampleFile :: File where
  "exampleFile =
     \<lparr>File.Doc = None, Package = 101, File.Name = Ident 109 ''main'',
      Decls = [GenDecl None IMPORT [ImportSpecN fmtImport, ImportSpecN osImport],
               helloDecl, helperDecl],
      File.Imports = [fmtImport, osImport],
      File.End = 1417\<rparr>"

text \<open>Package \<^verbatim>\<open>calc\<close> with the one function \<^verbatim>\<open>sum\<close> above.\<close>

definition sumFile :: File where
  "sumFile =
     \<lparr>File.Doc = None, Package = 1, File.Name = Ident 9 ''calc'',
      Decls = [sumDecl], File.Imports = [], File.End = 140\<rparr>"

text \<open>
  Package \<^verbatim>\<open>shapes\<close>: \<^verbatim>\<open>type A struct{}\<close>, \<^verbatim>\<open>type B struct{}\<close>, and on lines 6 and 7 the
  methods \<^verbatim>\<open>func (x A) String() string { return "A" }\<close> and
  \<^verbatim>\<open>func (x B) String() string { return "B" }\<close>.
\<close>

definition stringDecl :: "int \<Rightarrow> string \<Rightarrow> Node" where
  "stringDecl line recv =
     FuncDecl (100 * line + 1) (100 * line + 40) None
       (Some (FieldList
          [FieldN None [Ident (100 * line + 7) ''x'']
             (Some (IdentN (Ident (100 * line + 9) recv))) None None]))
       (Ident (100 * line + 12) ''String'')
       (FuncType None (Some (FieldList []))
          (Some (FieldList
             [FieldN None [] (Some (IdentN (Ident (100 * line + 21) ''string''))) None None])))
       (Some (Other ''*ast.BlockStmt''
          [Other ''*ast.ReturnStmt''
             [BasicLitN (BasicLit (100 * line + 37) ([CHR 0x22] @ recv @ [CHR 0x22]))]]))"

definition shapesFile :: File where
  "shapesFile =
     \<lparr>File.Doc = None, Package = 101, File.Name = Ident 109 ''shapes'',
      Decls = [GenDecl None TYPE'
                 [TypeSpec 306 315 None (Ident 306 ''A'') None
                    (StructType (FieldList [])) None],
               GenDecl None TYPE'
                 [TypeSpec 406 415 None (Ident 406 ''B'') None
                    (StructType (FieldList [])) None],
               stringDecl 6 ''A'', stringDecl 7 ''B''],
      File.Imports = [], File.End = 741\<rparr>"

subsection \<open>The results of the analyzer\<close>

text \<open>
  C6: every \<open>FunctionInfo\<close> in the result of \<^verbatim>\<open>AnalyzeFile\<close>, for any file and any analyzer,
  has a complexity of at least 1.
\<close>

theorem complexity_at_least_one:
  "fi \<in> set (Functions (fst (AnalyzeFile choices a file))) \<Longrightarrow> 1 \<le> Complexity fi"
  by (rule Complexity_ge_1)

theorem complexity_at_least_one_witness:
  "hd (Functions (fst (AnalyzeFile [] (NewASTAnalyzer exampleFileSet) exampleFile)))
     \<in> set (Functions (fst (AnalyzeFile [] (NewASTAnalyzer exampleFileSet) exampleFile))) \<and>
   1 \<le> Complexity (hd (Functions (fst (AnalyzeFile [] (NewASTAnalyzer exampleFileSet) exampleFile))))"
proof -
  have "Functions (fst (AnalyzeFile [] (NewASTAnalyzer exampleFileSet) exampleFile)) \<noteq> []"
    by code_simp
  then have mem: "hd (Functions (fst (AnalyzeFile [] (NewASTAnalyzer exampleFileSet) exampleFile)))
     \<in> set (Functions (fst (AnalyzeFile [] (NewASTAnalyzer exampleFileSet) exampleFile)))"
    by (rule hd_in_set)
  from mem complexity_at_least_one [OF mem] show ?thesis by simp
qed

lemma AnalyzeFile_again:
  assumes "untyped a"
  shows "fst (AnalyzeFile choices2 (snd (AnalyzeFile choices1 a file)) file) =
         fst (AnalyzeFile choices1 a file)"
proof -
  from assms have defs: "Defs (typeInfo a) = Map.empty"
    and dist: "distinct (map fst (complexity a))"
    by (simp_all add: untyped_def)
  have refs: "analyzeReferences c a file = []" for c
    by (rule analyzeReferences_noDefs [OF defs])
  have "calculateMetrics
          (a\<lparr>complexity :=
               writeAll (fileComplexities file) (writeAll (fileComplexities file) (complexity a))\<rparr>)
          file =
        calculateMetrics (a\<lparr>complexity := writeAll (fileComplexities file) (complexity a)\<rparr>) file"
    by (simp add: writeAll_idem [OF dist])
  then show ?thesis
    by (simp add: AnalyzeFile_eq refs)
qed

text \<open>
  C7: on an analyzer that \<^verbatim>\<open>NewASTAnalyzer\<close> made, after any calls of its methods, two
  calls of \<^verbatim>\<open>AnalyzeFile\<close> on the same file, one right after the other, return the same
  result in every field, whatever order the runtime picks for the two ranges over the
  reference map. The list of references is the same because it is empty both times, and
  the complexity score because the second call writes into the complexity map what the
  first call left there.
\<close>

theorem AnalyzeFile_twice_identical:
  "fst (AnalyzeFile choices2 (snd (AnalyzeFile choices1 (afterCalls fset calls) file)) file) =
   fst (AnalyzeFile choices1 (afterCalls fset calls) file)"
  by (rule AnalyzeFile_again) (rule untyped_afterCalls)

theorem AnalyzeFile_twice_identical_witness:
  "fst (AnalyzeFile [1]
          (snd (AnalyzeFile [0] (afterCalls exampleFileSet [CallAnalyzeFile [] sumFile])
                  exampleFile))
          exampleFile) =
   fst (AnalyzeFile [0] (afterCalls exampleFileSet [CallAnalyzeFile [] sumFile]) exampleFile)"
  using AnalyzeFile_twice_identical
          [of "[1]" "[0]" exampleFileSet "[CallAnalyzeFile [] sumFile]" exampleFile] .

lemma AnalyzeFile_untyped:
  assumes "untyped a"
  shows "References (fst (AnalyzeFile choices a file)) = [] \<and>
         map Used (AnalysisResult.Imports (fst (AnalyzeFile choices a file))) =
           replicate (length (File.Imports file)) False \<and>
         filter (\<lambda>d. Code d = ''unused-import'') (Diagnostics (fst (AnalyzeFile choices a file))) =
           map (unusedImport a file) (File.Imports file) \<and>
         AnalyzeDependencies a file = []"
proof -
  from assms have defs: "Defs (typeInfo a) = Map.empty" and uses: "Uses (typeInfo a) = Map.empty"
    by (simp_all add: untyped_def)
  show ?thesis
    by (simp add: AnalyzeFile_eq analyzeReferences_noDefs [OF defs] analyzeImports_noUses [OF uses]
          unused_import_diagnostics_noUses [OF uses] AnalyzeDependencies_noUses [OF uses])
qed

text \<open>
  C9: on an analyzer that \<^verbatim>\<open>NewASTAnalyzer\<close> made, after any calls of its methods, the maps
  \<^verbatim>\<open>Defs\<close> and \<^verbatim>\<open>Uses\<close> are empty; so for every file \<^verbatim>\<open>AnalyzeFile\<close> returns no
  references, marks every import as not used, reports one \<^verbatim>\<open>unused-import\<close> diagnostic for
  every import of the file, in order, and \<^verbatim>\<open>AnalyzeDependencies\<close> returns the empty map.
\<close>

theorem no_type_information:
  "Defs (typeInfo (afterCalls fset calls)) = Map.empty \<and>
   Uses (typeInfo (afterCalls fset calls)) = Map.empty \<and>
   References (fst (AnalyzeFile choices (afterCalls fset calls) file)) = [] \<and>
   map Used (AnalysisResult.Imports (fst (AnalyzeFile choices (afterCalls fset calls) file))) =
     replicate (length (File.Imports file)) False \<and>
   filter (\<lambda>d. Code d = ''unused-import'')
     (Diagnostics (fst (AnalyzeFile choices (afterCalls fset calls) file))) =
     map (unusedImport (afterCalls fset calls) file) (File.Imports file) \<and>
   AnalyzeDependencies (afterCalls fset calls) file = []"
  using AnalyzeFile_untyped [OF untyped_afterCalls, of choices fset calls "file"]
    untyped_afterCalls [of fset calls]
  by (simp add: untyped_def)

theorem no_type_information_witness:
  "References (fst (AnalyzeFile [] (afterCalls exampleFileSet [CallAnalyzeFile [] sumFile]) exampleFile)) = [] \<and>
   map Used (AnalysisResult.Imports
     (fst (AnalyzeFile [] (afterCalls exampleFileSet [CallAnalyzeFile [] sumFile]) exampleFile))) =
     [False, False] \<and>
   length (filter (\<lambda>d. Code d = ''unused-import'')
     (Diagnostics (fst (AnalyzeFile [] (afterCalls exampleFileSet [CallAnalyzeFile [] sumFile]) exampleFile)))) = 2 \<and>
   AnalyzeDependencies (afterCalls exampleFileSet [CallAnalyzeFile [] sumFile]) exampleFile = []"
  using no_type_information [of exampleFileSet "[CallAnalyzeFile [] sumFile]" "[]" exampleFile]
  by (simp add: exampleFile_def)

text \<open>
  C1: the end-to-end case of the specification, on \<open>exampleFile\<close> and a new analyzer. The
  result has two functions, \<^verbatim>\<open>Hello\<close> has complexity 2 and there is one \<^verbatim>\<open>missing-doc\<close>
  diagnostic, as the specification expects; but there are two \<^verbatim>\<open>unused-import\<close>
  diagnostics where it expects one, because the import \<^verbatim>\<open>fmt\<close>, used in the call
  \<^verbatim>\<open>fmt.Println\<close>, is reported as unused too.
\<close>

theorem end_to_end_example:
  "length (Functions (fst (AnalyzeFile [] (NewASTAnalyzer exampleFileSet) exampleFile))) = 2 \<and>
   map Complexity
     (filter (\<lambda>f. FunctionInfo.Name f = ''Hello'')
        (Functions (fst (AnalyzeFile [] (NewASTAnalyzer exampleFileSet) exampleFile)))) = [2] \<and>
   length (filter (\<lambda>d. Code d = ''unused-import'')
     (Diagnostics (fst (AnalyzeFile [] (NewASTAnalyzer exampleFileSet) exampleFile)))) = 2 \<and>
   length (filter (\<lambda>d. Code d = ''missing-doc'')
     (Diagnostics (fst (AnalyzeFile [] (NewASTAnalyzer exampleFileSet) exampleFile)))) = 1"
  by code_simp

text \<open>
  The closure of \<^verbatim>\<open>calculateMetrics\<close> never assigns the complexity score; the score of a
  result is the sum over the analyzer's map once the entries of the file are written to
  it, whatever the map held before.
\<close>

definition metricsAt :: "Node \<Rightarrow> CodeMetrics \<Rightarrow> CodeMetrics" where
  "metricsAt n m = snd (calculateMetrics_visit (Some n) m)"

lemma calculateMetrics_visit_Some:
  "calculateMetrics_visit (Some n) m = (True, metricsAt n m)"
  by (cases n) (simp_all add: calculateMetrics_visit_def metricsAt_def Let_def split: Node.splits)

lemma calculateMetrics_visit_None: "snd (calculateMetrics_visit None m) = m"
  by (simp add: calculateMetrics_visit_def)

lemma metricsAt_ComplexityScore: "ComplexityScore (metricsAt n m) = ComplexityScore m"
  by (cases n) (simp_all add: calculateMetrics_visit_def metricsAt_def Let_def split: Node.splits)

lemma fold_metricsAt_ComplexityScore:
  "ComplexityScore (fold metricsAt ns m) = ComplexityScore m"
  by (induction ns arbitrary: m) (simp_all add: metricsAt_ComplexityScore)

lemma ComplexityScore_calculateMetrics:
  "ComplexityScore (calculateMetrics a file) = sum_list (map snd (complexity a))"
  unfolding calculateMetrics_def
  by (simp add: Inspect_fold [OF calculateMetrics_visit_None calculateMetrics_visit_Some]
        fold_metricsAt_ComplexityScore Let_def)

lemma ComplexityScore_AnalyzeFile:
  "ComplexityScore (Metrics (fst (AnalyzeFile choices a file))) =
     sum_list (map snd (writeAll (fileComplexities file) (complexity a)))"
  by (simp add: AnalyzeFile_eq ComplexityScore_calculateMetrics)

text \<open>
  C8: the complexity score is the sum over the analyzer's map from function names to
  complexities, not over the functions of the result. Two methods named \<^verbatim>\<open>String\<close> in one
  file, each of complexity 1, give the score 1 where the complexities of the result add
  up to 2; and a file with the one function \<^verbatim>\<open>sum\<close> of complexity 2, analyzed after the
  file of C1, gives the score 5.
\<close>

theorem complexity_score_counts_names:
  "sum_list (map Complexity
     (Functions (fst (AnalyzeFile [] (NewASTAnalyzer exampleFileSet) shapesFile)))) = 2 \<and>
   ComplexityScore (Metrics (fst (AnalyzeFile [] (NewASTAnalyzer exampleFileSet) shapesFile))) = 1 \<and>
   sum_list (map Complexity
     (Functions (fst (AnalyzeFile []
        (snd (AnalyzeFile [] (NewASTAnalyzer exampleFileSet) exampleFile)) sumFile)))) = 2 \<and>
   ComplexityScore (Metrics (fst (AnalyzeFile []
        (snd (AnalyzeFile [] (NewASTAnalyzer exampleFileSet) exampleFile)) sumFile))) = 5"
  by code_simp

subsection \<open>Variables\<close>

text \<open>What the closure of \<^verbatim>\<open>analyzeVariables\<close> appends at a node.\<close>

definition variablesAt :: "ASTAnalyzer \<Rightarrow> File \<Rightarrow> Node \<Rightarrow> VariableInfo list" where
  "variablesAt a file n = snd (analyzeVariables_visit a file (Some n) [])"

lemma analyzeVariables_visit_Some:
  "analyzeVariables_visit a file (Some n) vs = (True, vs @ variablesAt a file n)"
  by (cases n) (simp_all add: analyzeVariables_visit_def variablesAt_def Let_def)

lemma analyzeVariables_visit_None: "snd (analyzeVariables_visit a file None vs) = vs"
  by (simp add: analyzeVariables_visit_def)

lemma analyzeVariables_eq:
  "analyzeVariables a file = concat (map (variablesAt a file) (nodes (fileNode file)))"
  unfolding analyzeVariables_def
  by (simp add: Inspect_fold [OF analyzeVariables_visit_None analyzeVariables_visit_Some]
        fold_append_emit)

text \<open>
  The names that a node declares, each with whether the declaration has an initializer:
  a \<^verbatim>\<open>*ast.ValueSpec\<close> declares its names, every other node nothing.
\<close>

fun declaredAt :: "Node \<Rightarrow> (string \<times> bool) list" where
  "declaredAt (ValueSpec _ _ _ names _ vals _) = map (\<lambda>name. (Ident.Name name, vals \<noteq> [])) names"
| "declaredAt _ = []"

lemma variablesAt_declared:
  "map (\<lambda>v. (VariableInfo.Name v, Constant v)) (variablesAt a file n) = declaredAt n"
  by (cases n) (simp_all add: variablesAt_def analyzeVariables_visit_def Let_def comp_def)

lemma map_concat_map: "map f (concat (map g xs)) = concat (map (\<lambda>x. map f (g x)) xs)"
  by (induction xs) simp_all

lemma analyzeVariables_declared:
  "map (\<lambda>v. (VariableInfo.Name v, Constant v)) (analyzeVariables a file) =
     concat (map declaredAt (nodes (fileNode file)))"
  by (simp add: analyzeVariables_eq map_concat_map variablesAt_declared)

lemma nodes_GenDecl:
  "nodes (GenDecl d tok specs) = GenDecl d tok specs # concat (map nodes (docNodes d @ specs))"
  by (subst nodes.simps) simp

lemma variablesAt_GenDecl_tail:
  "concat (map (variablesAt a file) (nodes (GenDecl d tok specs))) =
     concat (map (variablesAt a file) (concat (map nodes (docNodes d @ specs))))"
  by (simp add: nodes_GenDecl variablesAt_def analyzeVariables_visit_def)

lemma nodes_Other: "nodes (Other name cs) = Other name cs # concat (map nodes cs)"
  by (subst nodes.simps) simp

lemma variablesAt_file_indep:
  "variablesAt a (file\<lparr>Decls := ds\<rparr>) = variablesAt a file"
  by (rule ext)
     (simp add: variablesAt_def analyzeVariables_visit_def mkLocation_def cong: Node.case_cong)

lemma variablesAt_Other: "variablesAt a file (Other name cs) = []"
  by (simp add: variablesAt_def analyzeVariables_visit_def)

lemma analyzeVariables_keyword:
  "analyzeVariables a (file\<lparr>Decls := pre @ [GenDecl d CONST' specs] @ post\<rparr>) =
   analyzeVariables a (file\<lparr>Decls := pre @ [GenDecl d VAR specs] @ post\<rparr>)"
  by (simp add: analyzeVariables_eq nodes_Other variablesAt_file_indep variablesAt_GenDecl_tail
        fileNode_def variablesAt_Other)

text \<open>\<^verbatim>\<open>package p; const ( A = iota; B ); var x int; var y = 1\<close>\<close>

definition constVarFile :: File where
  "constVarFile =
     \<lparr>File.Doc = None, Package = 101, File.Name = Ident 109 ''p'',
      Decls = [GenDecl None CONST'
                 [ValueSpec 120 128 None [Ident 120 ''A''] None
                    [IdentN (Ident 124 ''iota'')] None,
                  ValueSpec 130 131 None [Ident 130 ''B''] None [] None],
               GenDecl None VAR
                 [ValueSpec 140 145 None [Ident 140 ''x''] (Some (IdentN (Ident 142 ''int'')))
                    [] None],
               GenDecl None VAR
                 [ValueSpec 152 157 None [Ident 152 ''y''] None
                    [BasicLitN (BasicLit 156 ''1'')] None]],
      File.Imports = [], File.End = 157\<rparr>"

text \<open>
  C10: \<^verbatim>\<open>analyzeVariables\<close> returns one \<open>VariableInfo\<close> for every name of every value
  specification of the file, in the order of the walk, and its \<^verbatim>\<open>Constant\<close> flag is true
  exactly when the specification has at least one initializer value. The keyword of the
  enclosing declaration plays no part: the same declaration under \<^verbatim>\<open>const\<close> and under
  \<^verbatim>\<open>var\<close> gives the same list.
\<close>

theorem Constant_iff_initializer:
  "map (\<lambda>v. (VariableInfo.Name v, Constant v)) (analyzeVariables a file) =
     concat (map declaredAt (nodes (fileNode file))) \<and>
   analyzeVariables a (file\<lparr>Decls := pre @ [GenDecl d CONST' specs] @ post\<rparr>) =
     analyzeVariables a (file\<lparr>Decls := pre @ [GenDecl d VAR specs] @ post\<rparr>)"
  by (simp only: analyzeVariables_declared analyzeVariables_keyword)

theorem Constant_iff_initializer_witness:
  "map (\<lambda>v. (VariableInfo.Name v, Constant v))
     (analyzeVariables (NewASTAnalyzer exampleFileSet) constVarFile) =
     [(''A'', True), (''B'', False), (''x'', False), (''y'', True)]"
proof -
  have "concat (map declaredAt (nodes (fileNode constVarFile))) =
        [(''A'', True), (''B'', False), (''x'', False), (''y'', True)]"
    by code_simp
  with Constant_iff_initializer [of "NewASTAnalyzer exampleFileSet" constVarFile]
  show ?thesis by simp
qed

subsection \<open>The language server\<close>

text \<open>
  \<^verbatim>\<open>package p; var x = 1; func f() {}; type T int\<close> on one line, and a parser for the
  examples that knows this text: it returns the tree below for it and registers the file
  (line 1, column = position); any other text is a syntax error.
\<close>

definition pText :: string where
  "pText = ''package p; var x = 1; func f() {}; type T int''"

definition pFile :: File where
  "pFile =
     \<lparr>File.Doc = None, Package = 1, File.Name = Ident 9 ''p'',
      Decls = [GenDecl None VAR
                 [ValueSpec 16 21 None [Ident 16 ''x''] None [BasicLitN (BasicLit 20 ''1'')] None],
               FuncDecl 23 34 None None (Ident 28 ''f'')
                 (FuncType None (Some (FieldList [])) None)
                 (Some (Other ''*ast.BlockStmt'' [])),
               GenDecl None TYPE'
                 [TypeSpec 41 46 None (Ident 41 ''T'') None (IdentN (Ident 43 ''int'')) None]],
      File.Imports = [], File.End = 46\<rparr>"

definition lineOne :: FileSet where
  "lineOne = (\<lambda>p. \<lparr>Filename = ''p.go'', Offset = p - 1, token_Position.Line = 1, Column = p\<rparr>)"

definition exampleParser :: Parser where
  "exampleParser fset filename src =
     (if src = pText then (Inr pFile, lineOne)
      else (Inl (filename @ '':1:1: expected declaration''), fset))"

definition pItem :: "int \<Rightarrow> TextDocumentItem" where
  "pItem v = \<lparr>TextDocumentItem.URI = ''file:///p.go'', TextDocumentItem.Text = pText,
              TextDocumentItem.Version = v\<rparr>"

definition badItem :: TextDocumentItem where
  "badItem = \<lparr>TextDocumentItem.URI = ''file:///p.go'', TextDocumentItem.Text = ''package'',
              TextDocumentItem.Version = 8\<rparr>"

text \<open>A server in which \<^verbatim>\<open>file:///p.go\<close> has an entry, at version 7.\<close>

definition openServer :: LanguageServer where
  "openServer =
     (NewLanguageServer ''.'')
       \<lparr>documents :=
          [''file:///p.go'' \<mapsto>
             \<lparr>Document.URI = ''file:///p.go'', Document.Text = ''package p'',
              AST = \<lparr>File.Doc = None, Package = 1, File.Name = Ident 9 ''p'', Decls = [],
                     File.Imports = [], File.End = 10\<rparr>,
              Symbols = [], Document.Version = 7\<rparr>]\<rparr>"

text \<open>
  C2: when the URI has no entry and the text parses, \<^verbatim>\<open>handleOpenDocument\<close> panics on
  the nil entry and stores nothing, where the specification has the document opened and
  stored with the version of the request.
\<close>

theorem open_absent_uri_panics:
  assumes "documents ls (TextDocumentItem.URI doc) = None"
    and "fst (parse (LanguageServer.fileSet ls) (TextDocumentItem.URI doc) (TextDocumentItem.Text doc))
           = Inr file"
  shows "fst (handleOpenDocument parse ls (Inr doc)) =
           Panicked ''runtime error: invalid memory address or nil pointer dereference'' \<and>
         documents (snd (handleOpenDocument parse ls (Inr doc))) = documents ls"
  using assms by (simp add: handleOpenDocument_def parseDocument_def Let_def)

theorem open_absent_uri_panics_witness:
  "documents (NewLanguageServer ''.'') (TextDocumentItem.URI (pItem 1)) = None \<and>
   fst (exampleParser (LanguageServer.fileSet (NewLanguageServer ''.''))
          (TextDocumentItem.URI (pItem 1)) (TextDocumentItem.Text (pItem 1))) = Inr pFile \<and>
   fst (handleOpenDocument exampleParser (NewLanguageServer ''.'') (Inr (pItem 1))) =
     Panicked ''runtime error: invalid memory address or nil pointer dereference'' \<and>
   documents (snd (handleOpenDocument exampleParser (NewLanguageServer ''.'') (Inr (pItem 1)))) =
     documents (NewLanguageServer ''.'')"
proof -
  have 1: "documents (NewLanguageServer ''.'') (TextDocumentItem.URI (pItem 1)) = None"
    by (simp add: NewLanguageServer_def)
  have 2: "fst (exampleParser (LanguageServer.fileSet (NewLanguageServer ''.''))
          (TextDocumentItem.URI (pItem 1)) (TextDocumentItem.Text (pItem 1))) = Inr pFile"
    by (simp add: exampleParser_def pItem_def)
  from 1 2 open_absent_uri_panics
             [of "NewLanguageServer ''.''" "pItem 1" exampleParser pFile, OF 1 2]
  show ?thesis by simp
qed

text \<open>
  When the URI has an entry, the version stored is the old version plus one; the version
  of the request is not read.
\<close>

lemma open_present_uri_version:
  assumes "documents ls (TextDocumentItem.URI doc) = Some old"
    and "fst (parse (LanguageServer.fileSet ls) (TextDocumentItem.URI doc) (TextDocumentItem.Text doc))
           = Inr file"
  shows "map_option Document.Version
           (documents (snd (handleOpenDocument parse ls (Inr doc))) (TextDocumentItem.URI doc)) =
         Some (Document.Version old + 1)"
  using assms by (simp add: handleOpenDocument_def parseDocument_def Let_def)

text \<open>
  C3: when the new text does not parse, \<^verbatim>\<open>handleChangeDocument\<close> answers with the syntax
  error (status 500) and the map of documents is what it was before the call, so the text,
  version, tree and symbols of every document are unchanged.
\<close>

theorem change_syntax_error_keeps_documents:
  assumes "fst (parse (LanguageServer.fileSet ls) (TextDocumentItem.URI doc) (TextDocumentItem.Text doc))
             = Inl err"
  shows "fst (handleChangeDocument parse ls (Inr doc)) =
           Returned (writeError StatusInternalServerError (''failed to parse document: '' @ err)) \<and>
         documents (snd (handleChangeDocument parse ls (Inr doc))) = documents ls"
  using assms by (simp add: handleChangeDocument_def parseDocument_def Let_def)

theorem change_syntax_error_keeps_documents_witness:
  "fst (exampleParser (LanguageServer.fileSet openServer) (TextDocumentItem.URI badItem)
          (TextDocumentItem.Text badItem)) = Inl ''file:///p.go:1:1: expected declaration'' \<and>
   fst (handleChangeDocument exampleParser openServer (Inr badItem)) =
     Returned (writeError StatusInternalServerError
       ''failed to parse document: file:///p.go:1:1: expected declaration'') \<and>
   map_option (\<lambda>d. (Document.Text d, Document.Version d, AST d, Symbols d))
     (documents (snd (handleChangeDocument exampleParser openServer (Inr badItem))) ''file:///p.go'') =
   Some (''package p'', 7,
         \<lparr>File.Doc = None, Package = 1, File.Name = Ident 9 ''p'', Decls = [],
           File.Imports = [], File.End = 10\<rparr>, [])"
proof -
  have 1: "fst (exampleParser (LanguageServer.fileSet openServer) (TextDocumentItem.URI badItem)
          (TextDocumentItem.Text badItem)) = Inl ''file:///p.go:1:1: expected declaration''"
    by (simp add: exampleParser_def badItem_def pText_def)
  from 1 change_syntax_error_keeps_documents
           [of exampleParser openServer badItem "''file:///p.go:1:1: expected declaration''", OF 1]
  show ?thesis
    by (simp add: openServer_def)
qed

subsection \<open>Symbols of a document\<close>




















end
